theory Spec2Isabelle
  imports Complex_Main
begin

section \<open>JavaScript values\<close>

text \<open>
  A JavaScript number is an IEEE-754 double.  Every finite double is a rational, so the
  value domain is modelled as the rationals extended by \<open>NaN\<close> and the two infinities
  (the two zeros are identified: nothing in the program tells them apart).  The operations
  that round (multiplication, \<open>Math.pow\<close>, \<open>parseFloat\<close>, number-to-string conversion) are
  not defined here: they are the fields of a \<open>runtime\<close> record that every function using
  them takes as its first argument.
\<close>

datatype number = NaN | PosInf | NegInf | Fin rat

datatype jsval =
    Undefined
  | Null
  | Boolean bool
  | Number number
  | String string
  | Array "jsval list"
  | Object "(string \<times> jsval) list"

record runtime =
  parseFloat :: "string \<Rightarrow> number"
  times :: "number \<Rightarrow> number \<Rightarrow> number"
  Math_pow :: "number \<Rightarrow> number \<Rightarrow> number"
  numberToString :: "number \<Rightarrow> string"

definition isNaN :: "number \<Rightarrow> bool" where
  "isNaN n = (n = NaN)"

text \<open>The relational operator \<open>a <= b\<close> on numbers: false as soon as one side is NaN.\<close>

fun number_le :: "number \<Rightarrow> number \<Rightarrow> bool" where
  "number_le NaN _ = False"
| "number_le _ NaN = False"
| "number_le NegInf _ = True"
| "number_le _ PosInf = True"
| "number_le (Fin a) (Fin b) = (a \<le> b)"
| "number_le _ _ = False"

text \<open>\<open>a < b\<close> on numbers.\<close>

fun number_less :: "number \<Rightarrow> number \<Rightarrow> bool" where
  "number_less NaN _ = False"
| "number_less _ NaN = False"
| "number_less (Fin a) (Fin b) = (a < b)"
| "number_less NegInf NegInf = False"
| "number_less NegInf _ = True"
| "number_less PosInf _ = False"
| "number_less (Fin a) PosInf = True"
| "number_less (Fin a) NegInf = False"

text \<open>\<open>Math.min(a, b)\<close>: NaN when an argument is NaN, else the smaller one.\<close>

definition Math_min :: "number \<Rightarrow> number \<Rightarrow> number" where
  "Math_min a b = (if isNaN a \<or> isNaN b then NaN else if number_le a b then a else b)"

text \<open>Truthiness (\<open>ToBoolean\<close>), as used by \<open>if (x)\<close>, \<open>!x\<close>, \<open>x || y\<close> and \<open>x && y\<close>.\<close>

definition truthy_number :: "number \<Rightarrow> bool" where
  "truthy_number n = (n \<noteq> NaN \<and> n \<noteq> Fin 0)"

fun truthy :: "jsval \<Rightarrow> bool" where
  "truthy Undefined = False"
| "truthy Null = False"
| "truthy (Boolean b) = b"
| "truthy (Number n) = truthy_number n"
| "truthy (String s) = (s \<noteq> [])"
| "truthy (Array xs) = True"
| "truthy (Object kvs) = True"

section \<open>Errors\<close>

text \<open>
  What the program throws: \<open>new Error(message)\<close>, the \<open>ApiError\<close> built by the response
  interceptor (status code and message), a \<open>TypeError\<close> of the runtime (a property read
  on \<open>undefined\<close>), the errors Mongoose rejects with (schema validation, or the database
  itself), and the value \<open>undefined\<close> (a \<open>throw\<close> of a variable never assigned).
\<close>

datatype error =
    Error string
  | ApiError nat string
  | TypeError string
  | ValidationError string
  | MongoError string
  | ThrownUndefined

text \<open>\<open>xs.join(sep)\<close> on strings that are already converted.\<close>

fun join :: "string \<Rightarrow> string list \<Rightarrow> string" where
  "join sep [] = []"
| "join sep [x] = x"
| "join sep (x # y # ys) = x @ sep @ join sep (y # ys)"

text \<open>The first error of a list of results, or all the values.\<close>

fun collect :: "(error + 'a) list \<Rightarrow> error + 'a list" where
  "collect [] = Inr []"
| "collect (x # xs) =
     (case x of
        Inl e \<Rightarrow> Inl e
      | Inr v \<Rightarrow> (case collect xs of Inl e \<Rightarrow> Inl e | Inr vs \<Rightarrow> Inr (v # vs)))"

text \<open>
  \<open>String(v)\<close>, which is also the conversion a template literal makes.  The values are
  those of a parsed JSON text, so that no property is a function.  An array is joined with
  commas, \<open>null\<close> and \<open>undefined\<close> elements giving the empty string.  A plain object gives
  \<open>[object Object]\<close> through \<open>Object.prototype.toString\<close>; when it has a property of its own
  named \<open>toString\<close>, that property is found instead, is not callable, \<open>valueOf\<close> gives no
  primitive either, and the conversion throws a \<open>TypeError\<close>.
\<close>

fun String_of :: "runtime \<Rightarrow> jsval \<Rightarrow> error + string" where
  "String_of R Undefined = Inr ''undefined''"
| "String_of R Null = Inr ''null''"
| "String_of R (Boolean b) = Inr (if b then ''true'' else ''false'')"
| "String_of R (Number n) = Inr (numberToString R n)"
| "String_of R (String s) = Inr s"
| "String_of R (Array xs) =
     (case collect (map (\<lambda>x. if x = Undefined \<or> x = Null then Inr [] else String_of R x) xs) of
        Inl e \<Rightarrow> Inl e
      | Inr ss \<Rightarrow> Inr (join '','' ss))"
| "String_of R (Object kvs) =
     (if ''toString'' \<in> set (map fst kvs)
      then Inl (TypeError ''Cannot convert object to primitive value'')
      else Inr ''[object Object]'')"

section \<open>The remote board client: retry with exponential backoff\<close>

record RetryConfig =
  maxRetries :: int
  baseDelay :: number
  maxDelay :: number
  backoffFactor :: number

definition defaultRetryConfig :: RetryConfig where
  "defaultRetryConfig =
     \<lparr>maxRetries = 3, baseDelay = Fin 1000, maxDelay = Fin 10000, backoffFactor = Fin 2\<rparr>"

text \<open>
  The result of one run of \<open>executeWithRetry\<close>: what it returned or threw, how many times
  it called the operation, and the delays it slept, in order.
\<close>

record 'a retry_run =
  outcome :: "error + 'a"
  calls :: nat
  sleeps :: "number list"

text \<open>The delay computed in the catch block of attempt \<open>attempt\<close>.\<close>

definition retry_delay :: "runtime \<Rightarrow> RetryConfig \<Rightarrow> int \<Rightarrow> number" where
  "retry_delay R retryConfig attempt =
     Math_min
       (times R (baseDelay retryConfig)
          (Math_pow R (backoffFactor retryConfig) (Fin (of_int attempt))))
       (maxDelay retryConfig)"

text \<open>
  The \<open>for\<close> loop of \<open>executeWithRetry\<close>, from the value \<open>attempt\<close> of its counter on.
  \<open>operation k\<close> is what the \<open>k\<close>-th call of the operation does (counted from 0): it
  rejects with an error (\<open>Inl\<close>) or resolves with a value (\<open>Inr\<close>).  \<open>lastError\<close> is the
  variable of that name; it is \<open>undefined\<close> until the first failure.
\<close>

function retry_loop ::
  "runtime \<Rightarrow> (nat \<Rightarrow> error + 'a) \<Rightarrow> RetryConfig \<Rightarrow> error \<Rightarrow> int \<Rightarrow> 'a retry_run" where
  "retry_loop R operation retryConfig lastError attempt =
     (if attempt \<le> maxRetries retryConfig then
        (case operation (nat attempt) of
           Inr v \<Rightarrow> \<lparr>outcome = Inr v, calls = 1, sleeps = []\<rparr>
         | Inl e \<Rightarrow>
             if attempt = maxRetries retryConfig
             then \<lparr>outcome = Inl e, calls = 1, sleeps = []\<rparr>
             else
               (let delay = retry_delay R retryConfig attempt;
                    rest = retry_loop R operation retryConfig e (attempt + 1)
                in rest\<lparr>calls := Suc (calls rest), sleeps := delay # sleeps rest\<rparr>))
      else \<lparr>outcome = Inl lastError, calls = 0, sleeps = []\<rparr>)"
  by pat_completeness auto
termination
  by (relation "measure (\<lambda>(R, operation, retryConfig, lastError, attempt).
        nat (maxRetries retryConfig + 1 - attempt))") auto

declare retry_loop.simps [simp del]

definition executeWithRetry ::
  "runtime \<Rightarrow> (nat \<Rightarrow> error + 'a) \<Rightarrow> RetryConfig \<Rightarrow> 'a retry_run" where
  "executeWithRetry R operation retryConfig =
     retry_loop R operation retryConfig ThrownUndefined 0"

text \<open>
  \<open>createMondayApiService\<close> merges the caller's partial retry configuration over the
  defaults (\<open>{ ...defaultRetryConfig, ...retryConfig }\<close>); \<open>index.ts\<close> passes none.
\<close>

record PartialRetryConfig =
  p_maxRetries :: "int option"
  p_baseDelay :: "number option"
  p_maxDelay :: "number option"
  p_backoffFactor :: "number option"

definition no_retryConfig :: PartialRetryConfig where
  "no_retryConfig =
     \<lparr>p_maxRetries = None, p_baseDelay = None, p_maxDelay = None, p_backoffFactor = None\<rparr>"

definition finalRetryConfig :: "PartialRetryConfig \<Rightarrow> RetryConfig" where
  "finalRetryConfig retryConfig =
     \<lparr>maxRetries = (case p_maxRetries retryConfig of
                       None \<Rightarrow> maxRetries defaultRetryConfig | Some v \<Rightarrow> v),
      baseDelay = (case p_baseDelay retryConfig of
                     None \<Rightarrow> baseDelay defaultRetryConfig | Some v \<Rightarrow> v),
      maxDelay = (case p_maxDelay retryConfig of
                    None \<Rightarrow> maxDelay defaultRetryConfig | Some v \<Rightarrow> v),
      backoffFactor = (case p_backoffFactor retryConfig of
                         None \<Rightarrow> backoffFactor defaultRetryConfig | Some v \<Rightarrow> v)\<rparr>"

subsection \<open>Responses of the board service\<close>

text \<open>
  \<open>client.post\<close> resolves with a response whose body is a \<open>MondayApiResponse\<close>, or rejects
  (no response, a time-out, a status outside 2xx) with the error the interceptor built.
  \<open>errors\<close> holds the messages of the GraphQL errors, \<open>None\<close> when the field is absent;
  \<open>data\<close> is an object, as its type says.
\<close>

record 'd MondayApiResponse =
  data :: 'd
  errors :: "string list option"

record ColumnValue =
  cv_text :: "string option"
  cv_value :: "string option"

record MondayItem =
  item_id :: string
  item_name :: string
  item_column_values :: "ColumnValue list"

text \<open>The payloads of the three operations; an \<open>option\<close> is a field the code tests for.\<close>

type_synonym GetItemData = "MondayItem list option"

type_synonym GetColumnValueData = "ColumnValue list option list option"

type_synonym UpdateColumnValueData = "string option"

text \<open>
  The \<open>variables\<close> object sent with a query.  \<open>client.post\<close> is modelled by a function of the
  variables and of the number of the call: the service may answer each call differently.
\<close>

type_synonym variables = "(string \<times> jsval) list"

type_synonym 'd post = "variables \<Rightarrow> nat \<Rightarrow> error + 'd MondayApiResponse"

text \<open>
  The test every client function makes on the response it got:
  \<open>if (response.data.errors && response.data.errors.length > 0) throw new Error(...)\<close>.
\<close>

definition graphqlError :: "'d MondayApiResponse \<Rightarrow> error option" where
  "graphqlError response =
     (case errors response of
        None \<Rightarrow> None
      | Some [] \<Rightarrow> None
      | Some (m # ms) \<Rightarrow>
          Some (Error (''Monday API Error: '' @ (if m = [] then ''Unknown error'' else m))))"

definition getItem ::
  "runtime \<Rightarrow> RetryConfig \<Rightarrow> GetItemData post \<Rightarrow> string \<Rightarrow> string \<Rightarrow> MondayItem retry_run" where
  "getItem R retryConfig post itemId boardId =
     (let variables = [(''itemId'', String itemId), (''boardId'', String boardId)];
          run = executeWithRetry R (post variables) retryConfig
      in \<lparr>outcome =
            (case outcome run of
               Inl e \<Rightarrow> Inl e
             | Inr response \<Rightarrow>
                 (case graphqlError response of
                    Some e \<Rightarrow> Inl e
                  | None \<Rightarrow>
                      (case data response of
                         None \<Rightarrow> Inl (Error (''Item '' @ itemId @ '' not found''))
                       | Some [] \<Rightarrow> Inl (Error (''Item '' @ itemId @ '' not found''))
                       | Some (item # items) \<Rightarrow> Inr item))),
          calls = calls run, sleeps = sleeps run\<rparr>)"

text \<open>
  \<open>boardId || process.env.DEFAULT_BOARD_ID\<close>; both may be missing, and an empty string
  counts as missing.
\<close>

definition boardId_or_default :: "string option \<Rightarrow> string option \<Rightarrow> jsval" where
  "boardId_or_default boardId DEFAULT_BOARD_ID =
     (case boardId of
        Some b \<Rightarrow> if b \<noteq> [] then String b
                  else (case DEFAULT_BOARD_ID of None \<Rightarrow> Undefined | Some d \<Rightarrow> String d)
      | None \<Rightarrow> (case DEFAULT_BOARD_ID of None \<Rightarrow> Undefined | Some d \<Rightarrow> String d))"

definition updateColumnValue ::
  "runtime \<Rightarrow> RetryConfig \<Rightarrow> string option \<Rightarrow> UpdateColumnValueData post
     \<Rightarrow> string \<Rightarrow> string \<Rightarrow> jsval \<Rightarrow> string option \<Rightarrow> bool retry_run" where
  "updateColumnValue R retryConfig DEFAULT_BOARD_ID post itemId columnId val boardId =
     (case String_of R val of
        Inl e \<Rightarrow> \<lparr>outcome = Inl e, calls = 0, sleeps = []\<rparr>
      | Inr valueText \<Rightarrow>
          (let variables =
                 [(''itemId'', String itemId), (''columnId'', String columnId),
                  (''value'', String valueText),
                  (''boardId'', boardId_or_default boardId DEFAULT_BOARD_ID)];
               run = executeWithRetry R (post variables) retryConfig
           in \<lparr>outcome =
                 (case outcome run of
                    Inl e \<Rightarrow> Inl e
                  | Inr response \<Rightarrow>
                      (case graphqlError response of
                         Some e \<Rightarrow> Inl e
                       | None \<Rightarrow> Inr (data response \<noteq> None))),
               calls = calls run, sleeps = sleeps run\<rparr>))"

text \<open>\<open>columnValues[0]?.text || null\<close>: an empty text counts as no text.\<close>

definition text_or_null :: "ColumnValue \<Rightarrow> string option" where
  "text_or_null cv =
     (case cv_text cv of None \<Rightarrow> None | Some t \<Rightarrow> if t = [] then None else Some t)"

definition getColumnValue ::
  "runtime \<Rightarrow> RetryConfig \<Rightarrow> GetColumnValueData post \<Rightarrow> string \<Rightarrow> string
     \<Rightarrow> string option retry_run" where
  "getColumnValue R retryConfig post itemId columnId =
     (let variables = [(''itemId'', String itemId), (''columnId'', String columnId)];
          run = executeWithRetry R (post variables) retryConfig
      in \<lparr>outcome =
            (case outcome run of
               Inl e \<Rightarrow> Inl e
             | Inr response \<Rightarrow>
                 (case graphqlError response of
                    Some e \<Rightarrow> Inl e
                  | None \<Rightarrow>
                      (case data response of
                         None \<Rightarrow> Inr None
                       | Some [] \<Rightarrow> Inr None
                       | Some (item # items) \<Rightarrow>
                           (case item of
                              None \<Rightarrow> Inr None
                            | Some [] \<Rightarrow> Inr None
                            | Some (cv # cvs) \<Rightarrow> Inr (text_or_null cv))))),
          calls = calls run, sleeps = sleeps run\<rparr>)"

text \<open>
  \<open>getBoardById\<close> returns \<open>response.data.data.boards[0]\<close>: \<open>undefined\<close> (\<open>None\<close>) when the
  list is empty, and a \<open>TypeError\<close> when there is no list.
\<close>

record Board =
  board_id :: string
  board_name :: string
  board_items :: "MondayItem list option"

type_synonym GetBoardData = "Board list option"

definition getBoardById ::
  "runtime \<Rightarrow> RetryConfig \<Rightarrow> GetBoardData post \<Rightarrow> string \<Rightarrow> Board option retry_run" where
  "getBoardById R retryConfig post boardId =
     (let variables = [(''boardId'', String boardId)];
          run = executeWithRetry R (post variables) retryConfig
      in \<lparr>outcome =
            (case outcome run of
               Inl e \<Rightarrow> Inl e
             | Inr response \<Rightarrow>
                 (case graphqlError response of
                    Some e \<Rightarrow> Inl e
                  | None \<Rightarrow>
                      (case data response of
                         None \<Rightarrow> Inl (TypeError ''Cannot read properties of undefined'')
                       | Some [] \<Rightarrow> Inr None
                       | Some (board # boards) \<Rightarrow> Inr (Some board)))),
          calls = calls run, sleeps = sleeps run\<rparr>)"

section \<open>The stores\<close>

text \<open>
  The two Mongoose collections: one factor per item id, and the history, oldest entry
  first (an entry is appended at the end).  Time stamps are left out: the order of the list
  is the order of creation.
\<close>

datatype Action = factor_updated | recalculation | webhook_triggered

datatype TriggerType = api | webhook | system

record HistoryEntry =
  h_itemId :: string
  h_action :: Action
  h_oldValue :: "number option"
  h_newValue :: number
  h_inputValue :: "number option"
  h_resultValue :: "number option"
  h_triggeredBy :: TriggerType
  h_metadata :: "(string \<times> jsval) list"

record db =
  factors :: "string \<rightharpoonup> number"
  history :: "HistoryEntry list"

text \<open>
  Whether the database answers during one invocation of a service function: each of the
  three kinds of access is made at most once per invocation, and each can reject.
\<close>

record mongo =
  findOne_ok :: bool
  factor_write_ok :: bool
  history_write_ok :: bool

definition Factor_findOne :: "mongo \<Rightarrow> db \<Rightarrow> string \<Rightarrow> error + number option" where
  "Factor_findOne M d itemId =
     (if findOne_ok M then Inr (factors d itemId)
      else Inl (MongoError ''Factor.findOne failed''))"

text \<open>
  \<open>FactorSchema\<close>: \<open>itemId\<close> is a required string (Mongoose rejects the empty string),
  \<open>factor\<close> a required number with \<open>min: 0\<close> (and NaN is not cast to a number).
  Validation runs before anything is written.
\<close>

definition Factor_valid_factor :: "number \<Rightarrow> bool" where
  "Factor_valid_factor f = (\<not> isNaN f \<and> number_le (Fin 0) f)"

definition Factor_save :: "mongo \<Rightarrow> db \<Rightarrow> string \<Rightarrow> number \<Rightarrow> error + db" where
  "Factor_save M d itemId newFactor =
     (if \<not> Factor_valid_factor newFactor then Inl (ValidationError ''Factor validation failed'')
      else if \<not> factor_write_ok M then Inl (MongoError ''Factor save failed'')
      else Inr (d\<lparr>factors := (factors d)(itemId \<mapsto> newFactor)\<rparr>))"

definition Factor_create :: "mongo \<Rightarrow> db \<Rightarrow> string \<Rightarrow> number \<Rightarrow> error + db" where
  "Factor_create M d itemId newFactor =
     (if itemId = [] \<or> \<not> Factor_valid_factor newFactor
      then Inl (ValidationError ''Factor validation failed'')
      else if \<not> factor_write_ok M then Inl (MongoError ''Factor create failed'')
      else Inr (d\<lparr>factors := (factors d)(itemId \<mapsto> newFactor)\<rparr>))"

text \<open>
  \<open>HistorySchema\<close>: \<open>itemId\<close> and \<open>newValue\<close> are required, the other numbers optional;
  \<open>action\<close> and \<open>triggeredBy\<close> are in their enumerations by their types.
\<close>

definition History_valid :: "HistoryEntry \<Rightarrow> bool" where
  "History_valid entry =
     (h_itemId entry \<noteq> [] \<and> \<not> isNaN (h_newValue entry)
      \<and> h_oldValue entry \<noteq> Some NaN \<and> h_inputValue entry \<noteq> Some NaN
      \<and> h_resultValue entry \<noteq> Some NaN)"

definition History_create :: "mongo \<Rightarrow> db \<Rightarrow> HistoryEntry \<Rightarrow> error + db" where
  "History_create M d entry =
     (if \<not> History_valid entry then Inl (ValidationError ''History validation failed'')
      else if \<not> history_write_ok M then Inl (MongoError ''History create failed'')
      else Inr (d\<lparr>history := history d @ [entry]\<rparr>))"

section \<open>The calculation service\<close>

record CalculationServiceConfig =
  cfg_retryConfig :: RetryConfig
  cfg_post_getColumnValue :: "GetColumnValueData post"
  cfg_post_updateColumnValue :: "UpdateColumnValueData post"
  cfg_inputColumnId :: string
  cfg_resultColumnId :: string
  cfg_DEFAULT_BOARD_ID :: "string option"

text \<open>
  The first three fields stand for the \<open>mondayApi\<close> service object of the configuration
  (its retry configuration and what the network answers to its two queries), the last for
  \<open>process.env.DEFAULT_BOARD_ID\<close>.
\<close>

record CalculationResult =
  cr_inputValue :: number
  cr_factor :: number
  cr_resultValue :: number
  cr_success :: bool

record FactorUpdateResult =
  fu_oldFactor :: "number option"
  fu_newFactor :: number
  fu_success :: bool

definition calculateResult :: "runtime \<Rightarrow> number \<Rightarrow> number \<Rightarrow> number" where
  "calculateResult R inputValue factor = times R inputValue factor"

definition validateInputValue :: "runtime \<Rightarrow> string \<Rightarrow> error + number" where
  "validateInputValue R inputValueText =
     (let inputValue = parseFloat R inputValueText in
      if isNaN inputValue then Inl (Error (''Invalid input value: '' @ inputValueText))
      else Inr inputValue)"

text \<open>
  The three logging functions each pass one document to \<open>History.create\<close>, catch what it
  throws and go on.  The documents first.
\<close>

definition calculation_entry ::
  "runtime \<Rightarrow> string \<Rightarrow> number \<Rightarrow> number \<Rightarrow> number \<Rightarrow> TriggerType \<Rightarrow> HistoryEntry" where
  "calculation_entry R itemId inputValue factor resultValue triggeredBy =
     \<lparr>h_itemId = itemId, h_action = recalculation, h_oldValue = None,
      h_newValue = resultValue, h_inputValue = Some inputValue,
      h_resultValue = Some resultValue, h_triggeredBy = triggeredBy,
      h_metadata =
        [(''factor'', Number factor),
         (''calculation'',
          String (numberToString R inputValue @ '' * '' @ numberToString R factor
                  @ '' = '' @ numberToString R resultValue))]\<rparr>"

definition logCalculation ::
  "runtime \<Rightarrow> mongo \<Rightarrow> string \<Rightarrow> number \<Rightarrow> number \<Rightarrow> number \<Rightarrow> TriggerType \<Rightarrow> db \<Rightarrow> db" where
  "logCalculation R M itemId inputValue factor resultValue triggeredBy d =
     (case History_create M d
             (calculation_entry R itemId inputValue factor resultValue triggeredBy) of
        Inl e \<Rightarrow> d
      | Inr d' \<Rightarrow> d')"

text \<open>The arrow of the \<open>change\<close> note is U+2192, three bytes in UTF-8.\<close>

definition arrow :: string where
  "arrow = [CHR 0xE2, CHR 0x86, CHR 0x92]"

definition factor_update_entry ::
  "runtime \<Rightarrow> string \<Rightarrow> number option \<Rightarrow> number \<Rightarrow> TriggerType \<Rightarrow> HistoryEntry" where
  "factor_update_entry R itemId oldFactor newFactor triggeredBy =
     \<lparr>h_itemId = itemId, h_action = factor_updated, h_oldValue = oldFactor,
      h_newValue = newFactor, h_inputValue = None, h_resultValue = None,
      h_triggeredBy = triggeredBy,
      h_metadata =
        [(''change'',
          String (case oldFactor of
                    Some old \<Rightarrow>
                      if truthy_number old
                      then numberToString R old @ '' '' @ arrow @ '' ''
                           @ numberToString R newFactor
                      else ''New factor: '' @ numberToString R newFactor
                  | None \<Rightarrow> ''New factor: '' @ numberToString R newFactor))]\<rparr>"

definition logFactorUpdate ::
  "runtime \<Rightarrow> mongo \<Rightarrow> string \<Rightarrow> number option \<Rightarrow> number \<Rightarrow> TriggerType \<Rightarrow> db \<Rightarrow> db" where
  "logFactorUpdate R M itemId oldFactor newFactor triggeredBy d =
     (case History_create M d (factor_update_entry R itemId oldFactor newFactor triggeredBy) of
        Inl e \<Rightarrow> d
      | Inr d' \<Rightarrow> d')"

fun error_message :: "error \<Rightarrow> string" where
  "error_message (Error m) = m"
| "error_message (ApiError c m) = m"
| "error_message (TypeError m) = m"
| "error_message (ValidationError m) = m"
| "error_message (MongoError m) = m"
| "error_message ThrownUndefined = []"

fun error_constructor_name :: "error \<Rightarrow> string" where
  "error_constructor_name (Error m) = ''Error''"
| "error_constructor_name (ApiError c m) = ''Error''"
| "error_constructor_name (TypeError m) = ''TypeError''"
| "error_constructor_name (ValidationError m) = ''ValidationError''"
| "error_constructor_name (MongoError m) = ''MongoError''"
| "error_constructor_name ThrownUndefined = []"

definition error_entry :: "string \<Rightarrow> error \<Rightarrow> TriggerType \<Rightarrow> HistoryEntry" where
  "error_entry itemId err triggeredBy =
     \<lparr>h_itemId = itemId, h_action = recalculation, h_oldValue = None,
      h_newValue = Fin 0, h_inputValue = None, h_resultValue = None,
      h_triggeredBy = triggeredBy,
      h_metadata =
        [(''error'', String (error_message err)),
         (''errorType'', String (error_constructor_name err))]\<rparr>"

text \<open>
  When the value caught is \<open>undefined\<close>, reading \<open>error.message\<close> throws inside the \<open>try\<close>
  of \<open>logError\<close>, and nothing is written.
\<close>

definition logError :: "mongo \<Rightarrow> string \<Rightarrow> error \<Rightarrow> TriggerType \<Rightarrow> db \<Rightarrow> db" where
  "logError M itemId err triggeredBy d =
     (if err = ThrownUndefined then d
      else
        (case History_create M d (error_entry itemId err triggeredBy) of
           Inl e \<Rightarrow> d
         | Inr d' \<Rightarrow> d'))"

text \<open>The \<open>try\<close> block of \<open>calculateAndUpdateResult\<close>: \<open>Inl\<close> is what it throws.\<close>

definition calculate_try ::
  "runtime \<Rightarrow> CalculationServiceConfig \<Rightarrow> mongo \<Rightarrow> string \<Rightarrow> TriggerType \<Rightarrow> db
     \<Rightarrow> error + CalculationResult \<times> db" where
  "calculate_try R config M itemId triggeredBy d =
     (case Factor_findOne M d itemId of
        Inl e \<Rightarrow> Inl e
      | Inr None \<Rightarrow> Inl (Error (''No factor found for item '' @ itemId))
      | Inr (Some factor) \<Rightarrow>
          (case outcome (getColumnValue R (cfg_retryConfig config) (cfg_post_getColumnValue config)
                           itemId (cfg_inputColumnId config)) of
             Inl e \<Rightarrow> Inl e
           | Inr None \<Rightarrow> Inl (Error (''No input value found for item '' @ itemId))
           | Inr (Some inputValueText) \<Rightarrow>
               if inputValueText = []
               then Inl (Error (''No input value found for item '' @ itemId))
               else
                 (case validateInputValue R inputValueText of
                    Inl e \<Rightarrow> Inl e
                  | Inr inputValue \<Rightarrow>
                      (let resultValue = calculateResult R inputValue factor in
                       case outcome (updateColumnValue R (cfg_retryConfig config)
                                       (cfg_DEFAULT_BOARD_ID config) (cfg_post_updateColumnValue config)
                                       itemId (cfg_resultColumnId config) (Number resultValue)
                                       (cfg_DEFAULT_BOARD_ID config)) of
                         Inl e \<Rightarrow> Inl e
                       | Inr updateSuccess \<Rightarrow>
                           if \<not> updateSuccess
                           then Inl (Error ''Failed to update result column in Monday.com'')
                           else
                             Inr (\<lparr>cr_inputValue = inputValue, cr_factor = factor,
                                   cr_resultValue = resultValue, cr_success = True\<rparr>,
                                  logCalculation R M itemId inputValue factor resultValue
                                    triggeredBy d)))))"

definition calculateAndUpdateResult ::
  "runtime \<Rightarrow> CalculationServiceConfig \<Rightarrow> mongo \<Rightarrow> string \<Rightarrow> TriggerType \<Rightarrow> db
     \<Rightarrow> CalculationResult \<times> db" where
  "calculateAndUpdateResult R config M itemId triggeredBy d =
     (case calculate_try R config M itemId triggeredBy d of
        Inr r \<Rightarrow> r
      | Inl err \<Rightarrow>
          (\<lparr>cr_inputValue = Fin 0, cr_factor = Fin 0, cr_resultValue = Fin 0,
            cr_success = False\<rparr>,
           logError M itemId err triggeredBy d))"

text \<open>\<open>existingFactor?.factor || null\<close> and \<open>factorDoc?.factor || null\<close>.\<close>

definition factor_or_null :: "number option \<Rightarrow> number option" where
  "factor_or_null doc =
     (case doc of None \<Rightarrow> None | Some f \<Rightarrow> if truthy_number f then Some f else None)"

definition updateFactor ::
  "runtime \<Rightarrow> mongo \<Rightarrow> string \<Rightarrow> number \<Rightarrow> TriggerType \<Rightarrow> db \<Rightarrow> FactorUpdateResult \<times> db" where
  "updateFactor R M itemId newFactor triggeredBy d =
     (let failed = \<lparr>fu_oldFactor = None, fu_newFactor = Fin 0, fu_success = False\<rparr> in
      case Factor_findOne M d itemId of
        Inl e \<Rightarrow> (failed, d)
      | Inr existingFactor \<Rightarrow>
          (let oldFactor = factor_or_null existingFactor in
           case (case existingFactor of
                   Some f \<Rightarrow> Factor_save M d itemId newFactor
                 | None \<Rightarrow> Factor_create M d itemId newFactor) of
             Inl e \<Rightarrow> (failed, d)
           | Inr d' \<Rightarrow>
               (\<lparr>fu_oldFactor = oldFactor, fu_newFactor = newFactor, fu_success = True\<rparr>,
                logFactorUpdate R M itemId oldFactor newFactor triggeredBy d')))"

definition getFactor :: "mongo \<Rightarrow> db \<Rightarrow> string \<Rightarrow> number option" where
  "getFactor M d itemId =
     (case Factor_findOne M d itemId of
        Inl e \<Rightarrow> None
      | Inr factorDoc \<Rightarrow> factor_or_null factorDoc)"

section \<open>The routes of the factor\<close>

text \<open>
  A route answers with a status and a JSON body, or passes an error to \<open>next\<close> (\<open>Inl\<close>),
  which \<open>errorHandler\<close> turns into the status the error carries.
\<close>

definition get_factor_route :: "mongo \<Rightarrow> db \<Rightarrow> string \<Rightarrow> error + nat \<times> jsval" where
  "get_factor_route M d itemId =
     (if itemId = [] then Inl (ApiError 400 ''Item ID is required'')
      else
        (case getFactor M d itemId of
           None \<Rightarrow> Inl (ApiError 404 (''No factor found for item '' @ itemId))
         | Some factor \<Rightarrow>
             Inr (200, Object [(''success'', Boolean True),
                    (''data'', Object [(''itemId'', String itemId),
                                       (''factor'', Number factor)])])))"

definition post_factor_route ::
  "runtime \<Rightarrow> mongo \<Rightarrow> db \<Rightarrow> string \<Rightarrow> jsval \<Rightarrow> (error + nat \<times> jsval) \<times> db" where
  "post_factor_route R M d itemId factor =
     (if itemId = [] then (Inl (ApiError 400 ''Item ID is required''), d)
      else
        (case factor of
           Number f \<Rightarrow>
             if number_less f (Fin 0)
             then (Inl (ApiError 400 ''Factor must be a non-negative number''), d)
             else
               (let (result, d') = updateFactor R M itemId f api d in
                if \<not> fu_success result then (Inl (ApiError 500 ''Failed to update factor''), d')
                else
                  (Inr (201, Object [(''success'', Boolean True),
                          (''data'', Object
                             [(''itemId'', String itemId),
                              (''oldFactor'',
                               (case fu_oldFactor result of None \<Rightarrow> Null | Some old \<Rightarrow> Number old)),
                              (''newFactor'', Number (fu_newFactor result))])]),
                   d'))
         | _ \<Rightarrow> (Inl (ApiError 400 ''Factor must be a non-negative number''), d)))"

section \<open>The webhook handler\<close>

record EventValue =
  ev_value :: jsval
  ev_unit :: "string option"

record WebhookEvent =
  e_type :: string
  e_columnId :: string
  e_pulseId :: jsval
  e_value :: "EventValue option"
  e_previousValue :: "EventValue option"

text \<open>
  The body of a request: \<open>challenge\<close> is \<open>Undefined\<close> when the field is missing, \<open>event\<close> is
  \<open>None\<close> when there is no event.  A request has no body at all (\<open>req.body\<close> is
  \<open>undefined\<close>) when \<open>req_body\<close> is \<open>None\<close>.
\<close>

record MondayWebhookPayload =
  challenge :: jsval
  event :: "WebhookEvent option"

record Request =
  req_body :: "MondayWebhookPayload option"

datatype response_body =
    ChallengeBody jsval
  | SuccessBody
  | ErrorBody string

record Response =
  status :: nat
  body :: response_body

text \<open>
  The calculation service the handler is configured with: it is called with an item id and
  a trigger on a state, and returns a result or throws, leaving a state.
\<close>

type_synonym 's calculationService =
  "string \<Rightarrow> TriggerType \<Rightarrow> 's \<Rightarrow> (error + CalculationResult) \<times> 's"

text \<open>
  A handler returns the response it sent, if it sent one.  \<open>handleWebhookChallenge\<close> reads
  \<open>req.body.challenge\<close>, which throws when there is no body.
\<close>

definition handleWebhookChallenge :: "Request \<Rightarrow> error + Response option" where
  "handleWebhookChallenge req =
     (case req_body req of
        None \<Rightarrow> Inl (TypeError ''Cannot read properties of undefined'')
      | Some payload \<Rightarrow>
          if truthy (challenge payload)
          then Inr (Some \<lparr>status = 200, body = ChallengeBody (challenge payload)\<rparr>)
          else Inr None)"

definition shouldProcessWebhook :: "MondayWebhookPayload \<Rightarrow> string \<Rightarrow> bool" where
  "shouldProcessWebhook payload inputColumnId =
     (case event payload of
        None \<Rightarrow> False
      | Some e \<Rightarrow> e_type e = ''update_column_value'' \<and> e_columnId e = inputColumnId)"

text \<open>\<open>parseFloat(String(value?.value || '0'))\<close>; the conversion to a string can throw.\<close>

definition parseInputValue :: "runtime \<Rightarrow> EventValue option \<Rightarrow> error + number option" where
  "parseInputValue R val =
     (let inner = (case val of None \<Rightarrow> Undefined | Some v \<Rightarrow> ev_value v) in
      case String_of R (if truthy inner then inner else String ''0'') of
        Inl e \<Rightarrow> Inl e
      | Inr t \<Rightarrow> (let parsed = parseFloat R t in Inr (if isNaN parsed then None else Some parsed)))"

text \<open>
  \<open>handleColumnChange\<close> resolves (\<open>None\<close>) or rejects (\<open>Some\<close> of the error).  Its \<open>try\<close>
  block first writes the item id into a log line, a template literal that converts
  \<open>event.pulseId\<close> to a string; it then parses the value and calls the service with
  \<open>String(itemId)\<close>.  The later log lines of the block convert values that were converted
  before, or primitive ones.  The \<open>catch\<close> block writes \<open>event.pulseId\<close> into a log line
  again: when that conversion throws, the function rejects.
\<close>

definition handleColumnChange ::
  "runtime \<Rightarrow> MondayWebhookPayload \<Rightarrow> 's calculationService \<Rightarrow> 's \<Rightarrow> error option \<times> 's" where
  "handleColumnChange R payload calculationService s =
     (let itemId = (case event payload of None \<Rightarrow> Undefined | Some e \<Rightarrow> e_pulseId e);
          val = (case event payload of None \<Rightarrow> None | Some e \<Rightarrow> e_value e);
          tried =
            (case String_of R itemId of
               Inl e \<Rightarrow> (Some e, s)
             | Inr itemIdText \<Rightarrow>
                 (case parseInputValue R val of
                    Inl e \<Rightarrow> (Some e, s)
                  | Inr None \<Rightarrow> (None, s)
                  | Inr (Some newInputValue) \<Rightarrow>
                      (case calculationService itemIdText webhook s of
                         (Inl e, s') \<Rightarrow> (Some e, s')
                       | (Inr result, s') \<Rightarrow> (None, s'))))
      in case tried of
           (None, s') \<Rightarrow> (None, s')
         | (Some caught, s') \<Rightarrow>
             (case String_of R itemId of
                Inl e \<Rightarrow> (Some e, s')
              | Inr itemIdText \<Rightarrow> (None, s')))"

definition handleWebhook ::
  "runtime \<Rightarrow> string \<Rightarrow> 's calculationService \<Rightarrow> Request \<Rightarrow> 's \<Rightarrow> Response option \<times> 's" where
  "handleWebhook R inputColumnId calculationService req s =
     (case req_body req of
        None \<Rightarrow> (Some \<lparr>status = 500, body = ErrorBody ''Internal server error''\<rparr>, s)
      | Some payload \<Rightarrow>
          if truthy (challenge payload) then
            (case handleWebhookChallenge req of
               Inl e \<Rightarrow> (Some \<lparr>status = 500, body = ErrorBody ''Internal server error''\<rparr>, s)
             | Inr sent \<Rightarrow> (sent, s))
          else if shouldProcessWebhook payload inputColumnId then
            (case handleColumnChange R payload calculationService s of
               (Some e, s') \<Rightarrow>
                 (Some \<lparr>status = 500, body = ErrorBody ''Internal server error''\<rparr>, s')
             | (None, s') \<Rightarrow> (Some \<lparr>status = 200, body = SuccessBody\<rparr>, s'))
          else (Some \<lparr>status = 200, body = SuccessBody\<rparr>, s))"

definition handleWebhookVerification :: "Request \<Rightarrow> Response option" where
  "handleWebhookVerification req =
     (case req_body req of
        None \<Rightarrow> Some \<lparr>status = 500, body = ErrorBody ''Internal server error''\<rparr>
      | Some payload \<Rightarrow>
          if truthy (challenge payload)
          then Some \<lparr>status = 200, body = ChallengeBody (challenge payload)\<rparr>
          else Some \<lparr>status = 400, body = ErrorBody ''No challenge provided''\<rparr>)"

text \<open>
  The handler as \<open>index.ts\<close> wires it: the calculation service is
  \<open>calculateAndUpdateResult\<close> on the stores, which never throws.
\<close>

definition webhook_calculationService ::
  "runtime \<Rightarrow> CalculationServiceConfig \<Rightarrow> mongo \<Rightarrow> db calculationService" where
  "webhook_calculationService R config M itemId triggeredBy d =
     (let (result, d') = calculateAndUpdateResult R config M itemId triggeredBy d
      in (Inr result, d'))"

section \<open>A runtime for concrete inputs\<close>

text \<open>
  Where the arguments are small integers and short decimals, IEEE arithmetic is exact and
  agrees with the rationals.  This runtime computes with the rationals; it reads decimal
  digit strings and prints natural numbers, and serves to run the model on examples.
\<close>

definition decimal_digits :: string where
  "decimal_digits = ''0123456789''"

text \<open>The value of a digit is its position in \<open>decimal_digits\<close>.\<close>

definition digit_val :: "char \<Rightarrow> nat option" where
  "digit_val c =
     (let i = length (takeWhile (\<lambda>d. d \<noteq> c) decimal_digits)
      in if i < length decimal_digits then Some i else None)"

text \<open>The longest prefix of digits, as a number, given the value read so far.\<close>

fun read_digits :: "nat option \<Rightarrow> string \<Rightarrow> nat option" where
  "read_digits acc [] = acc"
| "read_digits acc (c # cs) =
     (case digit_val c of
        None \<Rightarrow> acc
      | Some v \<Rightarrow> read_digits (Some ((case acc of None \<Rightarrow> 0 | Some a \<Rightarrow> 10 * a) + v)) cs)"

definition example_parseFloat :: "string \<Rightarrow> number" where
  "example_parseFloat s =
     (case read_digits None s of None \<Rightarrow> NaN | Some n \<Rightarrow> Fin (of_nat n))"

fun example_times :: "number \<Rightarrow> number \<Rightarrow> number" where
  "example_times (Fin a) (Fin b) = Fin (a * b)"
| "example_times _ _ = NaN"

fun example_pow :: "number \<Rightarrow> number \<Rightarrow> number" where
  "example_pow (Fin a) (Fin b) = (if 0 \<le> b then Fin (a ^ nat (floor b)) else NaN)"
| "example_pow _ _ = NaN"

definition digit_char :: "nat \<Rightarrow> char" where
  "digit_char n = decimal_digits ! (n mod 10)"

function show_nat :: "nat \<Rightarrow> string" where
  "show_nat n = (if n < 10 then [digit_char n] else show_nat (n div 10) @ [digit_char (n mod 10)])"
  by pat_completeness auto
termination
  by (relation "measure id") auto

declare show_nat.simps [simp del]

text \<open>Integers print in decimal; the examples use no other number.\<close>

fun example_numberToString :: "number \<Rightarrow> string" where
  "example_numberToString NaN = ''NaN''"
| "example_numberToString PosInf = ''Infinity''"
| "example_numberToString NegInf = ''-Infinity''"
| "example_numberToString (Fin a) =
     (if a = of_int (floor a)
      then (if a < 0 then ''-'' @ show_nat (nat (- floor a)) else show_nat (nat (floor a)))
      else ''?'')"

definition example_runtime :: runtime where
  "example_runtime =
     \<lparr>parseFloat = example_parseFloat, times = example_times, Math_pow = example_pow,
      numberToString = example_numberToString\<rparr>"

section \<open>Inputs for the examples\<close>

text \<open>An operation whose every call is rejected: the service cannot be reached.\<close>

definition always_unreachable :: "nat \<Rightarrow> error + 'a" where
  "always_unreachable k = Inl (ApiError 503 ''Monday API is unreachable'')"

text \<open>The database answering every access, and failing one kind of write.\<close>

definition all_ok :: mongo where
  "all_ok = \<lparr>findOne_ok = True, factor_write_ok = True, history_write_ok = True\<rparr>"

definition factor_write_down :: mongo where
  "factor_write_down = \<lparr>findOne_ok = True, factor_write_ok = False, history_write_ok = True\<rparr>"

definition history_write_down :: mongo where
  "history_write_down = \<lparr>findOne_ok = True, factor_write_ok = True, history_write_ok = False\<rparr>"

text \<open>A board whose input column reads 10 and which acknowledges every write.\<close>

definition input_reads_10 :: "GetColumnValueData post" where
  "input_reads_10 variables k =
     Inr \<lparr>data = Some [Some [\<lparr>cv_text = Some ''10'', cv_value = Some ''10''\<rparr>]], errors = None\<rparr>"

definition write_acknowledged :: "UpdateColumnValueData post" where
  "write_acknowledged variables k = Inr \<lparr>data = Some ''123'', errors = None\<rparr>"

definition example_config :: CalculationServiceConfig where
  "example_config =
     \<lparr>cfg_retryConfig = defaultRetryConfig,
      cfg_post_getColumnValue = input_reads_10,
      cfg_post_updateColumnValue = write_acknowledged,
      cfg_inputColumnId = ''numbers'',
      cfg_resultColumnId = ''numbers_1'',
      cfg_DEFAULT_BOARD_ID = Some ''42''\<rparr>"

text \<open>A service that answers every call with HTTP 200 and a GraphQL error.\<close>

definition always_graphql_error :: "'a option post" where
  "always_graphql_error variables k = Inr \<lparr>data = None, errors = Some [''Internal error'']\<rparr>"

text \<open>A service that no call reaches.\<close>

definition unreachable_service :: "'d post" where
  "unreachable_service variables k = Inl (ApiError 503 ''Monday API is unreachable'')"

text \<open>Stores with one factor and an empty history.\<close>

definition factor_3_for_123 :: db where
  "factor_3_for_123 = \<lparr>factors = [''123'' \<mapsto> Fin 3], history = []\<rparr>"

definition factor_0_for_123 :: db where
  "factor_0_for_123 = \<lparr>factors = [''123'' \<mapsto> Fin 0], history = []\<rparr>"

definition no_factors :: db where
  "no_factors = \<lparr>factors = Map.empty, history = []\<rparr>"

text \<open>Webhook requests: a body with given challenge and event, and a column event.\<close>

definition webhook_request :: "jsval \<Rightarrow> WebhookEvent option \<Rightarrow> Request" where
  "webhook_request c e = \<lparr>req_body = Some \<lparr>challenge = c, event = e\<rparr>\<rparr>"

definition column_event :: "string \<Rightarrow> string \<Rightarrow> jsval \<Rightarrow> WebhookEvent" where
  "column_event type columnId v =
     \<lparr>e_type = type, e_columnId = columnId, e_pulseId = Number (Fin 123),
      e_value = Some \<lparr>ev_value = v, ev_unit = None\<rparr>, e_previousValue = None\<rparr>"

text \<open>
  An event of the input column whose \<open>pulseId\<close> is the JSON object \<open>{"toString": 1}\<close>, which
  cannot be converted to a string.
\<close>

definition unprintable_pulse_event :: "jsval \<Rightarrow> WebhookEvent" where
  "unprintable_pulse_event v =
     \<lparr>e_type = ''update_column_value'', e_columnId = ''numbers'',
      e_pulseId = Object [(''toString'', Number (Fin 1))],
      e_value = Some \<lparr>ev_value = v, ev_unit = None\<rparr>, e_previousValue = None\<rparr>"

definition example_service :: "db calculationService" where
  "example_service = webhook_calculationService example_runtime example_config all_ok"

section \<open>Properties of the retry loop\<close>

lemma retry_loop_calls_pos:
  "attempt \<le> maxRetries retryConfig \<Longrightarrow>
   0 < calls (retry_loop R operation retryConfig lastError attempt)"
  by (subst retry_loop.simps) (simp split: sum.splits add: Let_def)

lemma retry_loop_sleeps:
  "sleeps (retry_loop R operation retryConfig lastError attempt) =
   map (retry_delay R retryConfig)
     [attempt .. attempt + int (calls (retry_loop R operation retryConfig lastError attempt)) - 2]"
proof (induction R operation retryConfig lastError attempt rule: retry_loop.induct)
  case (1 R operation retryConfig lastError attempt)
  show ?case
  proof (cases "attempt \<le> maxRetries retryConfig")
    case False
    then show ?thesis by (subst (1 2) retry_loop.simps) simp
  next
    case le: True
    show ?thesis
    proof (cases "operation (nat attempt)")
      case (Inr v)
      with le show ?thesis by (subst (1 2) retry_loop.simps) simp
    next
      case (Inl e)
      show ?thesis
      proof (cases "attempt = maxRetries retryConfig")
        case True
        with le Inl show ?thesis by (subst (1 2) retry_loop.simps) simp
      next
        case False
        with le have lt: "attempt + 1 \<le> maxRetries retryConfig" by simp
        let ?rest = "retry_loop R operation retryConfig e (attempt + 1)"
        have pos: "0 < calls ?rest" using lt by (rule retry_loop_calls_pos)
        have ih: "sleeps ?rest = map (retry_delay R retryConfig)
                    [attempt + 1 .. attempt + 1 + int (calls ?rest) - 2]"
          using "1.IH" [OF le Inl False refl] .
        have unf: "retry_loop R operation retryConfig lastError attempt =
                   ?rest\<lparr>calls := Suc (calls ?rest),
                          sleeps := retry_delay R retryConfig attempt # sleeps ?rest\<rparr>"
          using le Inl False by (subst retry_loop.simps) (simp add: Let_def)
        have "[attempt .. attempt + int (Suc (calls ?rest)) - 2] =
              attempt # [attempt + 1 .. attempt + 1 + int (calls ?rest) - 2]"
          using pos by (subst upto_rec1) (simp_all add: algebra_simps)
        then show ?thesis using ih unf by simp
      qed
    qed
  qed
qed

lemma retry_loop_all_fail:
  assumes "\<forall>i. attempt \<le> i \<and> i \<le> maxRetries retryConfig \<longrightarrow> operation (nat i) = Inl (err i)"
    and "attempt \<le> maxRetries retryConfig"
  shows "calls (retry_loop R operation retryConfig lastError attempt)
           = nat (maxRetries retryConfig - attempt + 1)
       \<and> outcome (retry_loop R operation retryConfig lastError attempt)
           = Inl (err (maxRetries retryConfig))"
  using assms
proof (induction R operation retryConfig lastError attempt rule: retry_loop.induct)
  case (1 R operation retryConfig lastError attempt)
  have f: "operation (nat attempt) = Inl (err attempt)" using "1.prems" by simp
  show ?case
  proof (cases "attempt = maxRetries retryConfig")
    case True
    with f show ?thesis by (subst (1 2) retry_loop.simps) simp
  next
    case False
    with "1.prems" have lt: "attempt + 1 \<le> maxRetries retryConfig" by simp
    let ?rest = "retry_loop R operation retryConfig (err attempt) (attempt + 1)"
    have ih: "calls ?rest = nat (maxRetries retryConfig - (attempt + 1) + 1)
            \<and> outcome ?rest = Inl (err (maxRetries retryConfig))"
      using "1.IH" [OF "1.prems"(2) f False refl] "1.prems"(1) lt by simp
    have unf: "retry_loop R operation retryConfig lastError attempt =
               ?rest\<lparr>calls := Suc (calls ?rest),
                      sleeps := retry_delay R retryConfig attempt # sleeps ?rest\<rparr>"
      using "1.prems"(2) f False by (subst retry_loop.simps) (simp add: Let_def)
    show ?thesis using ih unf lt by (simp add: nat_add_distrib)
  qed
qed

lemma retry_loop_first_success:
  assumes "\<forall>i. attempt \<le> i \<and> i < k \<longrightarrow> operation (nat i) = Inl (err i)"
    and "operation (nat k) = Inr v"
    and "attempt \<le> k" and "k \<le> maxRetries retryConfig"
  shows "calls (retry_loop R operation retryConfig lastError attempt) = nat (k - attempt + 1)
       \<and> outcome (retry_loop R operation retryConfig lastError attempt) = Inr v"
  using assms
proof (induction R operation retryConfig lastError attempt rule: retry_loop.induct)
  case (1 R operation retryConfig lastError attempt)
  have le: "attempt \<le> maxRetries retryConfig" using "1.prems" by simp
  show ?case
  proof (cases "attempt = k")
    case True
    with "1.prems" le show ?thesis by (subst (1 2) retry_loop.simps) simp
  next
    case False
    with "1.prems" have lt: "attempt < k" by simp
    then have f: "operation (nat attempt) = Inl (err attempt)" using "1.prems"(1) by simp
    have ne: "attempt \<noteq> maxRetries retryConfig" using lt "1.prems"(4) by simp
    let ?rest = "retry_loop R operation retryConfig (err attempt) (attempt + 1)"
    have ih: "calls ?rest = nat (k - (attempt + 1) + 1) \<and> outcome ?rest = Inr v"
      using "1.IH" [OF le f ne refl] "1.prems" lt by simp
    have unf: "retry_loop R operation retryConfig lastError attempt =
               ?rest\<lparr>calls := Suc (calls ?rest),
                      sleeps := retry_delay R retryConfig attempt # sleeps ?rest\<rparr>"
      using le f ne by (subst retry_loop.simps) (simp add: Let_def)
    show ?thesis using ih unf lt by (simp add: nat_add_distrib)
  qed
qed

lemma retry_loop_fail_prefix:
  assumes "\<forall>i. attempt \<le> i \<and> i \<le> k \<longrightarrow> operation (nat i) = Inl (err i)"
    and "attempt \<le> k" and "k < maxRetries retryConfig"
  shows "nat (k - attempt) + 2 \<le> calls (retry_loop R operation retryConfig lastError attempt)"
  using assms
proof (induction R operation retryConfig lastError attempt rule: retry_loop.induct)
  case (1 R operation retryConfig lastError attempt)
  have le: "attempt \<le> maxRetries retryConfig" and ne: "attempt \<noteq> maxRetries retryConfig"
    using "1.prems" by simp_all
  have f: "operation (nat attempt) = Inl (err attempt)" using "1.prems" by simp
  let ?rest = "retry_loop R operation retryConfig (err attempt) (attempt + 1)"
  have unf: "retry_loop R operation retryConfig lastError attempt =
             ?rest\<lparr>calls := Suc (calls ?rest),
                    sleeps := retry_delay R retryConfig attempt # sleeps ?rest\<rparr>"
    using le f ne by (subst retry_loop.simps) (simp add: Let_def)
  show ?case
  proof (cases "attempt = k")
    case True
    have "0 < calls ?rest" using "1.prems"(3) True by (intro retry_loop_calls_pos) simp
    then show ?thesis using unf True by simp
  next
    case False
    then have lt: "attempt + 1 \<le> k" using "1.prems"(2) by simp
    have "nat (k - (attempt + 1)) + 2 \<le> calls ?rest"
      using "1.IH" [OF le f ne refl] "1.prems" lt by simp
    then show ?thesis using unf lt by (simp add: nat_diff_distrib)
  qed
qed

lemma executeWithRetry_sleeps:
  "sleeps (executeWithRetry R operation retryConfig) =
     map (retry_delay R retryConfig) [0 .. int (calls (executeWithRetry R operation retryConfig)) - 2]"
  unfolding executeWithRetry_def
  using retry_loop_sleeps [of R operation retryConfig ThrownUndefined 0] by simp

lemma executeWithRetry_fail_prefix:
  assumes k: "int k < maxRetries retryConfig" and f: "\<forall>i\<le>k. operation i = Inl (err i)"
  shows "k + 2 \<le> calls (executeWithRetry R operation retryConfig)"
proof -
  have "\<forall>i. 0 \<le> i \<and> i \<le> int k \<longrightarrow> operation (nat i) = Inl ((err \<circ> nat) i)"
    using f by auto
  from retry_loop_fail_prefix [OF this _ k, of R ThrownUndefined]
  show ?thesis unfolding executeWithRetry_def by simp
qed

lemma executeWithRetry_all_fail:
  assumes m: "0 \<le> maxRetries retryConfig"
    and f: "\<forall>i\<le>nat (maxRetries retryConfig). operation i = Inl (err i)"
  shows "calls (executeWithRetry R operation retryConfig) = nat (maxRetries retryConfig) + 1
       \<and> outcome (executeWithRetry R operation retryConfig)
           = Inl (err (nat (maxRetries retryConfig)))"
proof -
  have "\<forall>i. 0 \<le> i \<and> i \<le> maxRetries retryConfig \<longrightarrow> operation (nat i) = Inl ((err \<circ> nat) i)"
    using f by (auto simp: nat_le_iff)
  from retry_loop_all_fail [OF this m, of R ThrownUndefined]
  show ?thesis unfolding executeWithRetry_def using m by (simp add: nat_add_distrib)
qed

lemma executeWithRetry_first_success:
  assumes f: "\<forall>i<k. operation i = Inl (err i)"
    and v: "operation k = Inr v" and k: "int k \<le> maxRetries retryConfig"
  shows "calls (executeWithRetry R operation retryConfig) = k + 1
       \<and> outcome (executeWithRetry R operation retryConfig) = Inr v"
proof -
  have "\<forall>i. 0 \<le> i \<and> i < int k \<longrightarrow> operation (nat i) = Inl ((err \<circ> nat) i)"
    using f by auto
  from retry_loop_first_success [OF this _ _ k, of v R ThrownUndefined] v
  show ?thesis unfolding executeWithRetry_def by (simp add: nat_add_distrib)
qed

text \<open>
  Claim C2.  Whatever the operation does, the delays slept by \<open>executeWithRetry\<close> are, in
  order, \<open>min(baseDelay * backoffFactor^i, maxDelay)\<close> for \<open>i = 0, 1, ...\<close>, one between
  two consecutive attempts; a failure of attempt \<open>i < maxRetries\<close> (after failures of all
  earlier ones) is followed by attempt \<open>i + 1\<close>; when every attempt fails, exactly
  \<open>maxRetries + 1\<close> attempts are made and the error of the last one is thrown; and the
  configuration used when the caller gives none is 3 retries, base 1000 ms, factor 2,
  cap 10000 ms.
\<close>

theorem executeWithRetry_backoff_and_exhaustion:
  "sleeps (executeWithRetry R operation retryConfig) =
     map (\<lambda>i. Math_min
                (times R (baseDelay retryConfig)
                   (Math_pow R (backoffFactor retryConfig) (Fin (of_int i))))
                (maxDelay retryConfig))
       [0 .. int (calls (executeWithRetry R operation retryConfig)) - 2]
   \<and> (int k < maxRetries retryConfig \<and> (\<forall>i\<le>k. operation i = Inl (err i))
        \<longrightarrow> k + 2 \<le> calls (executeWithRetry R operation retryConfig))
   \<and> (0 \<le> maxRetries retryConfig
        \<and> (\<forall>i\<le>nat (maxRetries retryConfig). operation i = Inl (err i))
        \<longrightarrow> calls (executeWithRetry R operation retryConfig) = nat (maxRetries retryConfig) + 1
          \<and> outcome (executeWithRetry R operation retryConfig)
              = Inl (err (nat (maxRetries retryConfig))))
   \<and> finalRetryConfig no_retryConfig =
       \<lparr>maxRetries = 3, baseDelay = Fin 1000, maxDelay = Fin 10000, backoffFactor = Fin 2\<rparr>"
proof (intro conjI impI)
  show "sleeps (executeWithRetry R operation retryConfig) =
     map (\<lambda>i. Math_min
                (times R (baseDelay retryConfig)
                   (Math_pow R (backoffFactor retryConfig) (Fin (of_int i))))
                (maxDelay retryConfig))
       [0 .. int (calls (executeWithRetry R operation retryConfig)) - 2]"
    using executeWithRetry_sleeps [of R operation retryConfig]
    by (simp add: retry_delay_def [abs_def])
next
  assume "int k < maxRetries retryConfig \<and> (\<forall>i\<le>k. operation i = Inl (err i))"
  then show "k + 2 \<le> calls (executeWithRetry R operation retryConfig)"
    using executeWithRetry_fail_prefix by blast
next
  assume a: "0 \<le> maxRetries retryConfig
        \<and> (\<forall>i\<le>nat (maxRetries retryConfig). operation i = Inl (err i))"
  then show "calls (executeWithRetry R operation retryConfig) = nat (maxRetries retryConfig) + 1"
    using executeWithRetry_all_fail by blast
  from a show "outcome (executeWithRetry R operation retryConfig)
              = Inl (err (nat (maxRetries retryConfig)))"
    using executeWithRetry_all_fail by blast
next
  show "finalRetryConfig no_retryConfig =
       \<lparr>maxRetries = 3, baseDelay = Fin 1000, maxDelay = Fin 10000, backoffFactor = Fin 2\<rparr>"
    by (simp add: finalRetryConfig_def no_retryConfig_def defaultRetryConfig_def)
qed

theorem executeWithRetry_backoff_and_exhaustion_witness:
  "calls (executeWithRetry example_runtime (always_unreachable :: nat \<Rightarrow> error + unit)
            (finalRetryConfig no_retryConfig)) = 4
   \<and> sleeps (executeWithRetry example_runtime (always_unreachable :: nat \<Rightarrow> error + unit)
            (finalRetryConfig no_retryConfig)) = [Fin 1000, Fin 2000, Fin 4000]
   \<and> outcome (executeWithRetry example_runtime (always_unreachable :: nat \<Rightarrow> error + unit)
            (finalRetryConfig no_retryConfig)) = Inl (ApiError 503 ''Monday API is unreachable'')"
proof -
  let ?op = "always_unreachable :: nat \<Rightarrow> error + unit"
  let ?rc = "finalRetryConfig no_retryConfig"
  let ?err = "\<lambda>i::nat. ApiError 503 ''Monday API is unreachable''"
  note t = executeWithRetry_backoff_and_exhaustion
             [of example_runtime ?op ?rc 1 ?err]
  have rc: "?rc = \<lparr>maxRetries = 3, baseDelay = Fin 1000, maxDelay = Fin 10000,
                   backoffFactor = Fin 2\<rparr>"
    using t by simp
  have c: "calls (executeWithRetry example_runtime ?op ?rc) = 4"
    using t by (simp add: rc always_unreachable_def)
  have u: "[0 .. int 4 - 2] = [0, 1, 2]" by (simp add: upto_rec1)
  have s: "sleeps (executeWithRetry example_runtime ?op ?rc) = [Fin 1000, Fin 2000, Fin 4000]"
    unfolding t [THEN conjunct1] c u
    by (simp add: rc example_runtime_def Math_min_def isNaN_def)
  have o: "outcome (executeWithRetry example_runtime ?op ?rc)
             = Inl (ApiError 503 ''Monday API is unreachable'')"
    using t by (simp add: rc always_unreachable_def)
  show ?thesis using c s o by simp
qed

lemma executeWithRetry_immediate:
  "operation 0 = Inr v \<Longrightarrow> 0 \<le> maxRetries retryConfig \<Longrightarrow>
   executeWithRetry R operation retryConfig = \<lparr>outcome = Inr v, calls = 1, sleeps = []\<rparr>"
  unfolding executeWithRetry_def by (subst retry_loop.simps) simp

section \<open>Properties of the board client\<close>

lemma getItem_graphql_error:
  assumes "\<forall>i<k. post [(''itemId'', String itemId), (''boardId'', String boardId)] i = Inl (err i)"
    and "post [(''itemId'', String itemId), (''boardId'', String boardId)] k = Inr response"
    and "errors response = Some (m # ms)"
    and "int k \<le> maxRetries retryConfig"
  shows "calls (getItem R retryConfig post itemId boardId) = k + 1
       \<and> outcome (getItem R retryConfig post itemId boardId)
           = Inl (Error (''Monday API Error: '' @ (if m = [] then ''Unknown error'' else m)))"
  using executeWithRetry_first_success [OF assms(1,2,4), of R] assms(3)
  by (simp add: getItem_def Let_def graphqlError_def)

lemma updateColumnValue_graphql_error:
  assumes "String_of R val = Inr valueText"
    and "\<forall>i<k. post [(''itemId'', String itemId), (''columnId'', String columnId),
                         (''value'', String valueText),
                         (''boardId'', boardId_or_default boardId dflt)] i = Inl (err i)"
    and "post [(''itemId'', String itemId), (''columnId'', String columnId),
               (''value'', String valueText),
               (''boardId'', boardId_or_default boardId dflt)] k = Inr response"
    and "errors response = Some (m # ms)"
    and "int k \<le> maxRetries retryConfig"
  shows "calls (updateColumnValue R retryConfig dflt post itemId columnId val boardId) = k + 1
       \<and> outcome (updateColumnValue R retryConfig dflt post itemId columnId val boardId)
           = Inl (Error (''Monday API Error: '' @ (if m = [] then ''Unknown error'' else m)))"
  using executeWithRetry_first_success [OF assms(2,3,5), of R] assms(1,4)
  by (simp add: updateColumnValue_def Let_def graphqlError_def)

lemma getColumnValue_graphql_error:
  assumes "\<forall>i<k. post [(''itemId'', String itemId), (''columnId'', String columnId)] i = Inl (err i)"
    and "post [(''itemId'', String itemId), (''columnId'', String columnId)] k = Inr response"
    and "errors response = Some (m # ms)"
    and "int k \<le> maxRetries retryConfig"
  shows "calls (getColumnValue R retryConfig post itemId columnId) = k + 1
       \<and> outcome (getColumnValue R retryConfig post itemId columnId)
           = Inl (Error (''Monday API Error: '' @ (if m = [] then ''Unknown error'' else m)))"
  using executeWithRetry_first_success [OF assms(1,2,4), of R] assms(3)
  by (simp add: getColumnValue_def Let_def graphqlError_def)

lemma getBoardById_graphql_error:
  assumes "\<forall>i<k. post [(''boardId'', String boardId)] i = Inl (err i)"
    and "post [(''boardId'', String boardId)] k = Inr response"
    and "errors response = Some (m # ms)"
    and "int k \<le> maxRetries retryConfig"
  shows "calls (getBoardById R retryConfig post boardId) = k + 1
       \<and> outcome (getBoardById R retryConfig post boardId)
           = Inl (Error (''Monday API Error: '' @ (if m = [] then ''Unknown error'' else m)))"
  using executeWithRetry_first_success [OF assms(1,2,4), of R] assms(3)
  by (simp add: getBoardById_def Let_def graphqlError_def)

text \<open>
  Claim C4, as amended.  In each of the four operations of the client (\<open>getItem\<close>,
  \<open>updateColumnValue\<close>, \<open>getColumnValue\<close>, \<open>getBoardById\<close>) a response that carries a non-empty
  \<open>errors\<close> array is a failure for the caller, but it is not retried: \<open>executeWithRetry\<close>
  returns at the first call that resolves, and the operation throws only afterwards.  When
  the calls before call \<open>k\<close> are rejected and call \<open>k\<close> resolves with GraphQL errors, exactly
  \<open>k + 1\<close> calls are made and the first error's message is thrown.
\<close>

theorem remote_operations_graphql_error_not_retried:
  "((\<forall>i<k. postI [(''itemId'', String itemId), (''boardId'', String boardId)] i = Inl (err i))
     \<and> postI [(''itemId'', String itemId), (''boardId'', String boardId)] k = Inr responseI
     \<and> errors responseI = Some (m # ms) \<and> int k \<le> maxRetries retryConfig
     \<longrightarrow> calls (getItem R retryConfig postI itemId boardId) = k + 1
       \<and> outcome (getItem R retryConfig postI itemId boardId)
           = Inl (Error (''Monday API Error: '' @ (if m = [] then ''Unknown error'' else m))))
   \<and> (String_of R val = Inr valueText
     \<and> (\<forall>i<k. postU [(''itemId'', String itemId), (''columnId'', String columnId),
                       (''value'', String valueText),
                       (''boardId'', boardId_or_default optBoardId dflt)] i = Inl (err i))
     \<and> postU [(''itemId'', String itemId), (''columnId'', String columnId),
               (''value'', String valueText),
               (''boardId'', boardId_or_default optBoardId dflt)] k = Inr responseU
     \<and> errors responseU = Some (m # ms) \<and> int k \<le> maxRetries retryConfig
     \<longrightarrow> calls (updateColumnValue R retryConfig dflt postU itemId columnId val optBoardId) = k + 1
       \<and> outcome (updateColumnValue R retryConfig dflt postU itemId columnId val optBoardId)
           = Inl (Error (''Monday API Error: '' @ (if m = [] then ''Unknown error'' else m))))
   \<and> ((\<forall>i<k. postC [(''itemId'', String itemId), (''columnId'', String columnId)] i = Inl (err i))
     \<and> postC [(''itemId'', String itemId), (''columnId'', String columnId)] k = Inr responseC
     \<and> errors responseC = Some (m # ms) \<and> int k \<le> maxRetries retryConfig
     \<longrightarrow> calls (getColumnValue R retryConfig postC itemId columnId) = k + 1
       \<and> outcome (getColumnValue R retryConfig postC itemId columnId)
           = Inl (Error (''Monday API Error: '' @ (if m = [] then ''Unknown error'' else m))))
   \<and> ((\<forall>i<k. postB [(''boardId'', String boardId)] i = Inl (err i))
     \<and> postB [(''boardId'', String boardId)] k = Inr responseB
     \<and> errors responseB = Some (m # ms) \<and> int k \<le> maxRetries retryConfig
     \<longrightarrow> calls (getBoardById R retryConfig postB boardId) = k + 1
       \<and> outcome (getBoardById R retryConfig postB boardId)
           = Inl (Error (''Monday API Error: '' @ (if m = [] then ''Unknown error'' else m))))"
proof (intro conjI impI)
  assume "(\<forall>i<k. postI [(''itemId'', String itemId), (''boardId'', String boardId)] i = Inl (err i))
     \<and> postI [(''itemId'', String itemId), (''boardId'', String boardId)] k = Inr responseI
     \<and> errors responseI = Some (m # ms) \<and> int k \<le> maxRetries retryConfig"
  then have a: "calls (getItem R retryConfig postI itemId boardId) = k + 1
       \<and> outcome (getItem R retryConfig postI itemId boardId)
           = Inl (Error (''Monday API Error: '' @ (if m = [] then ''Unknown error'' else m)))"
    using getItem_graphql_error by blast
  from a show "calls (getItem R retryConfig postI itemId boardId) = k + 1" by simp
  from a show "outcome (getItem R retryConfig postI itemId boardId)
           = Inl (Error (''Monday API Error: '' @ (if m = [] then ''Unknown error'' else m)))"
    by simp
next
  assume "String_of R val = Inr valueText
     \<and> (\<forall>i<k. postU [(''itemId'', String itemId), (''columnId'', String columnId),
                       (''value'', String valueText),
                       (''boardId'', boardId_or_default optBoardId dflt)] i = Inl (err i))
     \<and> postU [(''itemId'', String itemId), (''columnId'', String columnId),
               (''value'', String valueText),
               (''boardId'', boardId_or_default optBoardId dflt)] k = Inr responseU
     \<and> errors responseU = Some (m # ms) \<and> int k \<le> maxRetries retryConfig"
  then have a: "calls (updateColumnValue R retryConfig dflt postU itemId columnId val optBoardId)
                  = k + 1
       \<and> outcome (updateColumnValue R retryConfig dflt postU itemId columnId val optBoardId)
           = Inl (Error (''Monday API Error: '' @ (if m = [] then ''Unknown error'' else m)))"
    using updateColumnValue_graphql_error by blast
  from a show "calls (updateColumnValue R retryConfig dflt postU itemId columnId val optBoardId)
                 = k + 1" by simp
  from a show "outcome (updateColumnValue R retryConfig dflt postU itemId columnId val optBoardId)
           = Inl (Error (''Monday API Error: '' @ (if m = [] then ''Unknown error'' else m)))"
    by simp
next
  assume "(\<forall>i<k. postC [(''itemId'', String itemId), (''columnId'', String columnId)] i = Inl (err i))
     \<and> postC [(''itemId'', String itemId), (''columnId'', String columnId)] k = Inr responseC
     \<and> errors responseC = Some (m # ms) \<and> int k \<le> maxRetries retryConfig"
  then have a: "calls (getColumnValue R retryConfig postC itemId columnId) = k + 1
       \<and> outcome (getColumnValue R retryConfig postC itemId columnId)
           = Inl (Error (''Monday API Error: '' @ (if m = [] then ''Unknown error'' else m)))"
    using getColumnValue_graphql_error by blast
  from a show "calls (getColumnValue R retryConfig postC itemId columnId) = k + 1" by simp
  from a show "outcome (getColumnValue R retryConfig postC itemId columnId)
           = Inl (Error (''Monday API Error: '' @ (if m = [] then ''Unknown error'' else m)))"
    by simp
next
  assume "(\<forall>i<k. postB [(''boardId'', String boardId)] i = Inl (err i))
     \<and> postB [(''boardId'', String boardId)] k = Inr responseB
     \<and> errors responseB = Some (m # ms) \<and> int k \<le> maxRetries retryConfig"
  then have a: "calls (getBoardById R retryConfig postB boardId) = k + 1
       \<and> outcome (getBoardById R retryConfig postB boardId)
           = Inl (Error (''Monday API Error: '' @ (if m = [] then ''Unknown error'' else m)))"
    using getBoardById_graphql_error by blast
  from a show "calls (getBoardById R retryConfig postB boardId) = k + 1" by simp
  from a show "outcome (getBoardById R retryConfig postB boardId)
           = Inl (Error (''Monday API Error: '' @ (if m = [] then ''Unknown error'' else m)))"
    by simp
qed

theorem remote_operations_graphql_error_not_retried_witness:
  "calls (getItem example_runtime defaultRetryConfig always_graphql_error ''123'' ''42'') = 1
   \<and> outcome (getItem example_runtime defaultRetryConfig always_graphql_error ''123'' ''42'')
       = Inl (Error ''Monday API Error: Internal error'')
   \<and> calls (updateColumnValue example_runtime defaultRetryConfig (Some ''42'')
              always_graphql_error ''123'' ''numbers_1'' (Number (Fin 30)) None) = 1
   \<and> outcome (updateColumnValue example_runtime defaultRetryConfig (Some ''42'')
              always_graphql_error ''123'' ''numbers_1'' (Number (Fin 30)) None)
       = Inl (Error ''Monday API Error: Internal error'')
   \<and> calls (getColumnValue example_runtime defaultRetryConfig always_graphql_error
              ''123'' ''numbers_1'') = 1
   \<and> outcome (getColumnValue example_runtime defaultRetryConfig always_graphql_error
              ''123'' ''numbers_1'')
       = Inl (Error ''Monday API Error: Internal error'')
   \<and> calls (getBoardById example_runtime defaultRetryConfig always_graphql_error ''42'') = 1
   \<and> outcome (getBoardById example_runtime defaultRetryConfig always_graphql_error ''42'')
       = Inl (Error ''Monday API Error: Internal error'')"
proof -
  have v: "String_of example_runtime (Number (Fin 30)) = Inr (numberToString example_runtime (Fin 30))"
    by simp
  note t = remote_operations_graphql_error_not_retried
      [of 0 always_graphql_error "''123''" "''42''" "\<lambda>i. ThrownUndefined"
          "\<lparr>data = None, errors = Some [''Internal error'']\<rparr>" "''Internal error''" "[]"
          defaultRetryConfig example_runtime "Number (Fin 30)"
          "numberToString example_runtime (Fin 30)" always_graphql_error "''numbers_1''"
          None "Some ''42''" "\<lparr>data = None, errors = Some [''Internal error'']\<rparr>"
          always_graphql_error "\<lparr>data = None, errors = Some [''Internal error'']\<rparr>"
          always_graphql_error "\<lparr>data = None, errors = Some [''Internal error'']\<rparr>"]
  show ?thesis
    using t v by (simp add: always_graphql_error_def defaultRetryConfig_def)
qed

text \<open>
  With the default configuration, a service that always answers with a GraphQL error is
  called once, and one that is never reached is called four times.
\<close>

theorem getItem_graphql_error_single_attempt:
  "calls (getItem example_runtime defaultRetryConfig always_graphql_error ''123'' ''42'') = 1
   \<and> sleeps (getItem example_runtime defaultRetryConfig always_graphql_error ''123'' ''42'') = []
   \<and> outcome (getItem example_runtime defaultRetryConfig always_graphql_error ''123'' ''42'')
       = Inl (Error ''Monday API Error: Internal error'')
   \<and> calls (getItem example_runtime defaultRetryConfig unreachable_service ''123'' ''42'') = 4"
proof -
  have "calls (getItem example_runtime defaultRetryConfig unreachable_service ''123'' ''42'') = 4"
    using executeWithRetry_all_fail
            [of defaultRetryConfig
                "(unreachable_service :: GetItemData post)
                   [(''itemId'', String ''123''), (''boardId'', String ''42'')]"
                "\<lambda>i. ApiError 503 ''Monday API is unreachable''" example_runtime]
    by (simp add: getItem_def Let_def unreachable_service_def defaultRetryConfig_def)
  then show ?thesis
    by (simp add: getItem_def Let_def graphqlError_def always_graphql_error_def
          defaultRetryConfig_def
          executeWithRetry_immediate
            [where v = "\<lparr>data = None, errors = Some [''Internal error'']\<rparr>"])
qed

section \<open>Properties of the calculation service\<close>

lemma number_less_zero_invalid: "number_less f (Fin 0) \<Longrightarrow> \<not> Factor_valid_factor f"
  by (cases f) (simp_all add: Factor_valid_factor_def isNaN_def)

lemma logCalculation_db:
  "factors (logCalculation R M itemId i f r t d) = factors d
   \<and> history (logCalculation R M itemId i f r t d) =
       (if History_valid (calculation_entry R itemId i f r t) \<and> history_write_ok M
        then history d @ [calculation_entry R itemId i f r t] else history d)"
  by (simp add: logCalculation_def History_create_def)

lemma logFactorUpdate_db:
  "factors (logFactorUpdate R M itemId old new t d) = factors d
   \<and> history (logFactorUpdate R M itemId old new t d) =
       (if History_valid (factor_update_entry R itemId old new t) \<and> history_write_ok M
        then history d @ [factor_update_entry R itemId old new t] else history d)"
  by (simp add: logFactorUpdate_def History_create_def)

lemma calculate_try_Inr:
  assumes "calculate_try R config M itemId triggeredBy d = Inr (result, d')"
  shows "\<exists>factor inputValueText.
           factors d itemId = Some factor
         \<and> outcome (getColumnValue R (cfg_retryConfig config) (cfg_post_getColumnValue config)
                      itemId (cfg_inputColumnId config)) = Inr (Some inputValueText)
         \<and> inputValueText \<noteq> []
         \<and> \<not> isNaN (parseFloat R inputValueText)
         \<and> outcome (updateColumnValue R (cfg_retryConfig config) (cfg_DEFAULT_BOARD_ID config)
                      (cfg_post_updateColumnValue config) itemId (cfg_resultColumnId config)
                      (Number (times R (parseFloat R inputValueText) factor))
                      (cfg_DEFAULT_BOARD_ID config)) = Inr True
         \<and> result = \<lparr>cr_inputValue = parseFloat R inputValueText, cr_factor = factor,
                      cr_resultValue = times R (parseFloat R inputValueText) factor,
                      cr_success = True\<rparr>
         \<and> d' = logCalculation R M itemId (parseFloat R inputValueText) factor
                  (times R (parseFloat R inputValueText) factor) triggeredBy d"
  using assms
  by (auto simp: calculate_try_def Factor_findOne_def validateInputValue_def calculateResult_def
                 Let_def
           split: sum.splits option.splits if_splits)

lemma example_getColumnValue:
  "outcome (getColumnValue example_runtime defaultRetryConfig input_reads_10 itemId columnId)
     = Inr (Some ''10'')"
  by (simp add: getColumnValue_def Let_def graphqlError_def text_or_null_def
        executeWithRetry_immediate [where v = "\<lparr>data = Some [Some [\<lparr>cv_text = Some ''10'', cv_value = Some ''10''\<rparr>]], errors = None\<rparr>"]
        input_reads_10_def defaultRetryConfig_def)

lemma example_updateColumnValue:
  "outcome (updateColumnValue example_runtime defaultRetryConfig b write_acknowledged
              itemId columnId (Number n) b') = Inr True"
  by (simp add: updateColumnValue_def Let_def graphqlError_def
        executeWithRetry_immediate [where v = "\<lparr>data = Some ''123'', errors = None\<rparr>"]
        write_acknowledged_def defaultRetryConfig_def)

lemma example_parse_10: "example_parseFloat ''10'' = Fin 10"
  by (simp add: example_parseFloat_def digit_val_def decimal_digits_def)

lemma example_calculate:
  "findOne_ok M \<Longrightarrow>
   calculateAndUpdateResult example_runtime example_config M ''123'' t factor_3_for_123
   = (\<lparr>cr_inputValue = Fin 10, cr_factor = Fin 3, cr_resultValue = Fin 30, cr_success = True\<rparr>,
      logCalculation example_runtime M ''123'' (Fin 10) (Fin 3) (Fin 30) t factor_3_for_123)"
  by (simp add: calculateAndUpdateResult_def calculate_try_def Factor_findOne_def
        example_config_def example_getColumnValue example_updateColumnValue
        validateInputValue_def calculateResult_def factor_3_for_123_def
        example_runtime_def [THEN arg_cong, of parseFloat] example_runtime_def [THEN arg_cong, of times]
        example_parse_10 isNaN_def Let_def)

text \<open>
  Claim C1, as amended.  A recalculation that returns \<open>success: true\<close> found a factor for the
  item and a text in the input column that is not empty and that \<open>parseFloat\<close> reads as a
  number (not NaN), and the board acknowledged the write of the result; the input value it
  returns is that number, and the result it
  returns is the product of that number and the factor, as the runtime's multiplication gives
  it, with no further rounding; the factors are unchanged; and the history grows by exactly
  one \<open>recalculation\<close> entry whose \<open>newValue\<close>, \<open>inputValue\<close>, \<open>resultValue\<close> and metadata
  \<open>factor\<close> are the returned values, provided \<open>History.create\<close> accepts and writes the entry.
  When it does not, the error is caught and the history is unchanged.
\<close>

theorem calculateAndUpdateResult_success:
  assumes "calculateAndUpdateResult R config M itemId triggeredBy d = (result, d')"
    and "cr_success result"
  shows "\<exists>factor inputValueText.
           factors d itemId = Some factor
         \<and> outcome (getColumnValue R (cfg_retryConfig config) (cfg_post_getColumnValue config)
                      itemId (cfg_inputColumnId config)) = Inr (Some inputValueText)
         \<and> inputValueText \<noteq> []
         \<and> \<not> isNaN (parseFloat R inputValueText)
         \<and> outcome (updateColumnValue R (cfg_retryConfig config) (cfg_DEFAULT_BOARD_ID config)
                      (cfg_post_updateColumnValue config) itemId (cfg_resultColumnId config)
                      (Number (times R (parseFloat R inputValueText) factor))
                      (cfg_DEFAULT_BOARD_ID config)) = Inr True
         \<and> cr_inputValue result = parseFloat R inputValueText
         \<and> cr_factor result = factor
         \<and> cr_resultValue result = times R (cr_inputValue result) (cr_factor result)
         \<and> factors d' = factors d
         \<and> history d' =
             (if History_valid (calculation_entry R itemId (cr_inputValue result)
                                  (cr_factor result) (cr_resultValue result) triggeredBy)
                 \<and> history_write_ok M
              then history d @ [calculation_entry R itemId (cr_inputValue result)
                                  (cr_factor result) (cr_resultValue result) triggeredBy]
              else history d)
         \<and> h_action (calculation_entry R itemId (cr_inputValue result)
                        (cr_factor result) (cr_resultValue result) triggeredBy) = recalculation
         \<and> h_newValue (calculation_entry R itemId (cr_inputValue result)
                        (cr_factor result) (cr_resultValue result) triggeredBy)
             = cr_resultValue result
         \<and> h_inputValue (calculation_entry R itemId (cr_inputValue result)
                        (cr_factor result) (cr_resultValue result) triggeredBy)
             = Some (cr_inputValue result)
         \<and> h_resultValue (calculation_entry R itemId (cr_inputValue result)
                        (cr_factor result) (cr_resultValue result) triggeredBy)
             = Some (cr_resultValue result)
         \<and> map_of (h_metadata (calculation_entry R itemId (cr_inputValue result)
                        (cr_factor result) (cr_resultValue result) triggeredBy)) ''factor''
             = Some (Number (cr_factor result))"
proof -
  from assms obtain r where t: "calculate_try R config M itemId triggeredBy d = Inr r"
    by (auto simp: calculateAndUpdateResult_def split: sum.splits)
  with assms(1) have "r = (result, d')" by (simp add: calculateAndUpdateResult_def)
  with t have "calculate_try R config M itemId triggeredBy d = Inr (result, d')" by simp
  from calculate_try_Inr [OF this] obtain factor inputValueText where
    f: "factors d itemId = Some factor"
    and g: "outcome (getColumnValue R (cfg_retryConfig config) (cfg_post_getColumnValue config)
                      itemId (cfg_inputColumnId config)) = Inr (Some inputValueText)"
    and n: "inputValueText \<noteq> []" "\<not> isNaN (parseFloat R inputValueText)"
    and u: "outcome (updateColumnValue R (cfg_retryConfig config) (cfg_DEFAULT_BOARD_ID config)
                      (cfg_post_updateColumnValue config) itemId (cfg_resultColumnId config)
                      (Number (times R (parseFloat R inputValueText) factor))
                      (cfg_DEFAULT_BOARD_ID config)) = Inr True"
    and r: "result = \<lparr>cr_inputValue = parseFloat R inputValueText, cr_factor = factor,
                      cr_resultValue = times R (parseFloat R inputValueText) factor,
                      cr_success = True\<rparr>"
    and d: "d' = logCalculation R M itemId (parseFloat R inputValueText) factor
                  (times R (parseFloat R inputValueText) factor) triggeredBy d"
    by blast
  show ?thesis
    apply (rule exI [of _ factor], rule exI [of _ inputValueText])
    using f g n u logCalculation_db [of R M itemId "parseFloat R inputValueText" factor
              "times R (parseFloat R inputValueText) factor" triggeredBy d]
    by (simp add: r d calculation_entry_def)
qed

theorem calculateAndUpdateResult_success_witness:
  "calculateAndUpdateResult example_runtime example_config all_ok ''123'' api factor_3_for_123
     = (\<lparr>cr_inputValue = Fin 10, cr_factor = Fin 3, cr_resultValue = Fin 30, cr_success = True\<rparr>,
        logCalculation example_runtime all_ok ''123'' (Fin 10) (Fin 3) (Fin 30) api
          factor_3_for_123)
   \<and> history (logCalculation example_runtime all_ok ''123'' (Fin 10) (Fin 3) (Fin 30) api
                factor_3_for_123)
     = [calculation_entry example_runtime ''123'' (Fin 10) (Fin 3) (Fin 30) api]"
proof -
  have e: "calculateAndUpdateResult example_runtime example_config all_ok ''123'' api
             factor_3_for_123
           = (\<lparr>cr_inputValue = Fin 10, cr_factor = Fin 3, cr_resultValue = Fin 30,
               cr_success = True\<rparr>,
              logCalculation example_runtime all_ok ''123'' (Fin 10) (Fin 3) (Fin 30) api
                factor_3_for_123)"
    by (simp add: example_calculate all_ok_def)
  have v: "History_valid (calculation_entry example_runtime ''123'' (Fin 10) (Fin 3) (Fin 30) api)"
    by (simp add: History_valid_def calculation_entry_def isNaN_def)
  from calculateAndUpdateResult_success [OF e] v
  have "history (logCalculation example_runtime all_ok ''123'' (Fin 10) (Fin 3) (Fin 30) api
                   factor_3_for_123)
        = [calculation_entry example_runtime ''123'' (Fin 10) (Fin 3) (Fin 30) api]"
    by (auto simp: all_ok_def factor_3_for_123_def)
  with e show ?thesis by simp
qed

text \<open>
  With the history write failing, the recalculation still succeeds and appends nothing.
\<close>

theorem calculateAndUpdateResult_success_without_history:
  "cr_success (fst (calculateAndUpdateResult example_runtime example_config history_write_down
                      ''123'' api factor_3_for_123))
   \<and> history (snd (calculateAndUpdateResult example_runtime example_config history_write_down
                      ''123'' api factor_3_for_123)) = history factor_3_for_123"
  by (simp add: example_calculate history_write_down_def logCalculation_def History_create_def)

lemma updateFactor_cases:
  "updateFactor R M itemId newFactor triggeredBy d =
     (if findOne_ok M \<and> factor_write_ok M \<and> Factor_valid_factor newFactor
         \<and> (itemId \<noteq> [] \<or> factors d itemId \<noteq> None)
      then (\<lparr>fu_oldFactor = factor_or_null (factors d itemId), fu_newFactor = newFactor,
             fu_success = True\<rparr>,
            logFactorUpdate R M itemId (factor_or_null (factors d itemId)) newFactor triggeredBy
              (d\<lparr>factors := (factors d)(itemId \<mapsto> newFactor)\<rparr>))
      else (\<lparr>fu_oldFactor = None, fu_newFactor = Fin 0, fu_success = False\<rparr>, d))"
  by (auto simp: updateFactor_def Factor_findOne_def Factor_save_def Factor_create_def Let_def
           split: option.splits)

text \<open>
  Claim C3, as amended.  \<open>updateFactor\<close> succeeds exactly when the read, the validation and
  the write of the factor succeed.  Then the factor is stored and one \<open>factor_updated\<close> entry
  is appended, provided \<open>History.create\<close> accepts and writes it.  When the store step fails
  the function returns \<open>success: false\<close> and leaves factors and history as they were: no entry
  is appended.
\<close>

theorem updateFactor_history_entry_only_after_store:
  assumes "updateFactor R M itemId newFactor triggeredBy d = (result, d')"
  shows "(fu_success result \<longleftrightarrow>
            findOne_ok M \<and> factor_write_ok M \<and> Factor_valid_factor newFactor
            \<and> (itemId \<noteq> [] \<or> factors d itemId \<noteq> None))
       \<and> (fu_success result \<longrightarrow>
            factors d' = (factors d)(itemId \<mapsto> newFactor)
            \<and> history d' =
                (if History_valid (factor_update_entry R itemId (factor_or_null (factors d itemId))
                                     newFactor triggeredBy)
                    \<and> history_write_ok M
                 then history d @ [factor_update_entry R itemId (factor_or_null (factors d itemId))
                                     newFactor triggeredBy]
                 else history d)
            \<and> h_action (factor_update_entry R itemId (factor_or_null (factors d itemId))
                           newFactor triggeredBy) = factor_updated)
       \<and> (\<not> fu_success result \<longrightarrow> d' = d)"
  using assms logFactorUpdate_db [of R M itemId "factor_or_null (factors d itemId)" newFactor
          triggeredBy "d\<lparr>factors := (factors d)(itemId \<mapsto> newFactor)\<rparr>"]
  by (auto simp: updateFactor_cases factor_update_entry_def split: if_splits)

theorem updateFactor_history_entry_only_after_store_witness:
  "fu_success (fst (updateFactor example_runtime all_ok ''123'' (Fin 5) api factor_3_for_123))
   \<and> history (snd (updateFactor example_runtime all_ok ''123'' (Fin 5) api factor_3_for_123))
       = [factor_update_entry example_runtime ''123'' (Some (Fin 3)) (Fin 5) api]
   \<and> snd (updateFactor example_runtime factor_write_down ''123'' (Fin 5) api factor_3_for_123)
       = factor_3_for_123"
proof -
  obtain r d' where e: "updateFactor example_runtime all_ok ''123'' (Fin 5) api factor_3_for_123
                         = (r, d')"
    by (cases "updateFactor example_runtime all_ok ''123'' (Fin 5) api factor_3_for_123")
  obtain r2 d2 where e2: "updateFactor example_runtime factor_write_down ''123'' (Fin 5) api
                            factor_3_for_123 = (r2, d2)"
    by (cases "updateFactor example_runtime factor_write_down ''123'' (Fin 5) api
                 factor_3_for_123")
  have v: "History_valid (factor_update_entry example_runtime ''123'' (Some (Fin 3)) (Fin 5) api)"
    by (simp add: History_valid_def factor_update_entry_def isNaN_def)
  have o: "factor_or_null (factors factor_3_for_123 ''123'') = Some (Fin 3)"
    by (simp add: factor_or_null_def factor_3_for_123_def truthy_number_def)
  have ok: "Factor_valid_factor (Fin 5)"
    by (simp add: Factor_valid_factor_def isNaN_def)
  from updateFactor_history_entry_only_after_store [OF e] v o ok
  have 1: "fu_success r
         \<and> history d' = [factor_update_entry example_runtime ''123'' (Some (Fin 3)) (Fin 5) api]"
    by (simp add: all_ok_def factor_3_for_123_def)
  from updateFactor_history_entry_only_after_store [OF e2]
  have 2: "d2 = factor_3_for_123" by (simp add: factor_write_down_def)
  show ?thesis using 1 2 by (simp add: e e2)
qed

text \<open>With the factor write failing, nothing is appended to the history.\<close>

theorem updateFactor_store_failure_no_history:
  "\<not> fu_success (fst (updateFactor example_runtime factor_write_down ''123'' (Fin 5) api
                        factor_3_for_123))
   \<and> history (snd (updateFactor example_runtime factor_write_down ''123'' (Fin 5) api
                        factor_3_for_123)) = history factor_3_for_123"
  by (simp add: updateFactor_cases factor_write_down_def)

text \<open>
  Claim C8.  A negative factor is rejected by the validation of the schema, which runs
  before the write, whether the item has a factor or not: \<open>updateFactor\<close> returns
  \<open>success: false\<close>, the factors are unchanged and no history entry is appended.
\<close>

theorem updateFactor_negative_rejected:
  assumes "number_less newFactor (Fin 0)"
  shows "fu_success (fst (updateFactor R M itemId newFactor triggeredBy d)) = False
       \<and> factors (snd (updateFactor R M itemId newFactor triggeredBy d)) = factors d
       \<and> history (snd (updateFactor R M itemId newFactor triggeredBy d)) = history d
       \<and> Factor_save M d itemId newFactor = Inl (ValidationError ''Factor validation failed'')
       \<and> Factor_create M d itemId newFactor = Inl (ValidationError ''Factor validation failed'')"
  using number_less_zero_invalid [OF assms]
  by (simp add: updateFactor_cases Factor_save_def Factor_create_def)

theorem updateFactor_negative_rejected_witness:
  "number_less (Fin (- 1)) (Fin 0)
   \<and> fu_success (fst (updateFactor example_runtime all_ok ''123'' (Fin (- 1)) api
                        factor_3_for_123)) = False
   \<and> factors (snd (updateFactor example_runtime all_ok ''123'' (Fin (- 1)) api
                        factor_3_for_123)) ''123'' = Some (Fin 3)
   \<and> history (snd (updateFactor example_runtime all_ok ''123'' (Fin (- 1)) api
                        factor_3_for_123)) = []
   \<and> fu_success (fst (updateFactor example_runtime all_ok ''999'' (Fin (- 1)) api
                        factor_3_for_123)) = False
   \<and> factors (snd (updateFactor example_runtime all_ok ''999'' (Fin (- 1)) api
                        factor_3_for_123)) ''999'' = None"
proof -
  have n: "number_less (Fin (- 1)) (Fin 0)" by simp
  show ?thesis
    using n updateFactor_negative_rejected [OF n, of example_runtime all_ok "''123''" api
                 factor_3_for_123]
            updateFactor_negative_rejected [OF n, of example_runtime all_ok "''999''" api
                 factor_3_for_123]
    by (simp add: factor_3_for_123_def)
qed

text \<open>A stored factor other than 0 is returned when the store answers.\<close>

lemma getFactor_truthy:
  "findOne_ok M \<Longrightarrow> factors d itemId = Some f \<Longrightarrow> f \<noteq> NaN \<Longrightarrow> f \<noteq> Fin 0 \<Longrightarrow>
   getFactor M d itemId = Some f"
  by (simp add: getFactor_def Factor_findOne_def factor_or_null_def truthy_number_def)

text \<open>The route that sets a factor accepts the factor 0 and stores it.\<close>

lemma post_factor_route_zero:
  "post_factor_route example_runtime all_ok no_factors ''123'' (Number (Fin 0))
   = (Inr (201, Object [(''success'', Boolean True),
                  (''data'', Object [(''itemId'', String ''123''), (''oldFactor'', Null),
                                     (''newFactor'', Number (Fin 0))])]),
      \<lparr>factors = [''123'' \<mapsto> Fin 0],
       history = [factor_update_entry example_runtime ''123'' None (Fin 0) api]\<rparr>)"
  by (simp add: post_factor_route_def updateFactor_cases all_ok_def no_factors_def
        Factor_valid_factor_def isNaN_def factor_or_null_def logFactorUpdate_def
        History_create_def History_valid_def factor_update_entry_def)

text \<open>
  Claim C9.  \<open>getFactor\<close> is to return the stored factor of an item, the factor 0 included,
  and \<open>null\<close> only for an item without a factor.  At the factor 0 it does not: the factor is
  accepted and stored by \<open>updateFactor\<close>, and \<open>getFactor\<close> then returns \<open>null\<close> for it
  (\<open>factorDoc?.factor || null\<close>), so that the route answers 404.
\<close>

theorem getFactor_zero_factor_reported_absent:
  "factors factor_0_for_123 ''123'' = Some (Fin 0)
   \<and> getFactor all_ok factor_0_for_123 ''123'' = None
   \<and> get_factor_route all_ok factor_0_for_123 ''123''
       = Inl (ApiError 404 ''No factor found for item 123'')
   \<and> fst (post_factor_route example_runtime all_ok no_factors ''123'' (Number (Fin 0)))
       = Inr (201, Object [(''success'', Boolean True),
                (''data'', Object [(''itemId'', String ''123''), (''oldFactor'', Null),
                                   (''newFactor'', Number (Fin 0))])])
   \<and> factors (snd (post_factor_route example_runtime all_ok no_factors ''123''
                      (Number (Fin 0)))) ''123'' = Some (Fin 0)
   \<and> getFactor all_ok (snd (post_factor_route example_runtime all_ok no_factors ''123''
                              (Number (Fin 0)))) ''123'' = None"
  by (simp add: post_factor_route_zero)
     (simp add: getFactor_def get_factor_route_def Factor_findOne_def factor_or_null_def
        truthy_number_def all_ok_def factor_0_for_123_def)

section \<open>Properties of the webhook handler\<close>

text \<open>
  \<open>handleColumnChange\<close> rejects exactly when the item id of the event cannot be converted
  to a string, and then the service has not been called.
\<close>

lemma handleColumnChange_unprintable:
  "event payload = Some e \<Longrightarrow> String_of R (e_pulseId e) = Inl err \<Longrightarrow>
   handleColumnChange R payload calculationService s = (Some err, s)"
  by (simp add: handleColumnChange_def Let_def)

lemma handleColumnChange_printable:
  "event payload = Some e \<Longrightarrow> String_of R (e_pulseId e) = Inr t \<Longrightarrow>
   fst (handleColumnChange R payload calculationService s) = None"
  by (simp add: handleColumnChange_def Let_def split: sum.splits option.splits prod.splits)

lemma handleColumnChange_unparsed:
  "event payload = Some e \<Longrightarrow> \<forall>m. parseInputValue R (e_value e) \<noteq> Inr (Some m) \<Longrightarrow>
   snd (handleColumnChange R payload calculationService s) = s"
  by (auto simp: handleColumnChange_def Let_def split: sum.splits option.splits prod.splits)

lemma parseInputValue_truthy:
  "val = Some v \<Longrightarrow> truthy (ev_value v) \<Longrightarrow>
   parseInputValue R val =
     (case String_of R (ev_value v) of
        Inl e \<Rightarrow> Inl e
      | Inr t \<Rightarrow> Inr (if isNaN (parseFloat R t) then None else Some (parseFloat R t)))"
  by (simp add: parseInputValue_def Let_def split: sum.splits)

lemma parseInputValue_falsy:
  "val = None \<or> (\<exists>v. val = Some v \<and> \<not> truthy (ev_value v)) \<Longrightarrow>
   parseInputValue R val
     = Inr (if isNaN (parseFloat R ''0'') then None else Some (parseFloat R ''0''))"
  by (auto simp: parseInputValue_def Let_def split: sum.splits)

lemma unprintable_pulseId:
  "String_of R (Object [(''toString'', Number (Fin 1))])
     = Inl (TypeError ''Cannot convert object to primitive value'')"
  by simp

lemma show_nat_123: "show_nat 123 = ''123''"
  by (simp add: show_nat.simps digit_char_def decimal_digits_def)

lemma example_parse_0: "parseFloat example_runtime ''0'' = Fin 0"
  by (simp add: example_runtime_def example_parseFloat_def digit_val_def decimal_digits_def)

lemma example_service_123:
  "example_service ''123'' t factor_3_for_123
     = (Inr \<lparr>cr_inputValue = Fin 10, cr_factor = Fin 3, cr_resultValue = Fin 30,
             cr_success = True\<rparr>,
        \<lparr>factors = [''123'' \<mapsto> Fin 3],
         history = [calculation_entry example_runtime ''123'' (Fin 10) (Fin 3) (Fin 30) t]\<rparr>)"
proof -
  have v: "History_valid (calculation_entry example_runtime ''123'' (Fin 10) (Fin 3) (Fin 30) t)"
    by (simp add: History_valid_def calculation_entry_def isNaN_def)
  have "calculateAndUpdateResult example_runtime example_config all_ok ''123'' t factor_3_for_123
        = (\<lparr>cr_inputValue = Fin 10, cr_factor = Fin 3, cr_resultValue = Fin 30,
            cr_success = True\<rparr>,
           logCalculation example_runtime all_ok ''123'' (Fin 10) (Fin 3) (Fin 30) t
             factor_3_for_123)"
    by (simp add: example_calculate all_ok_def)
  then show ?thesis
    using v
    by (simp add: example_service_def webhook_calculationService_def logCalculation_def
          History_create_def all_ok_def factor_3_for_123_def)
qed

text \<open>
  Claim C5, as amended.  A body without challenge and without event is acknowledged with
  200 and \<open>success: true\<close>, and nothing else happens.  The handler answers 500 exactly when
  handling throws: when the request has no body at all, so that reading
  \<open>req.body.challenge\<close> throws, and when an event that passes the filter carries a \<open>pulseId\<close>
  that cannot be converted to a string, so that the log lines of \<open>handleColumnChange\<close> throw
  in its \<open>try\<close> and again in its \<open>catch\<close>.
\<close>

theorem handleWebhook_server_error_only_when_handling_throws:
  "((\<exists>b. fst (handleWebhook R inputColumnId calculationService req s)
            = Some \<lparr>status = 500, body = b\<rparr>)
      \<longleftrightarrow> (req_body req = None
           \<or> (\<exists>p e err. req_body req = Some p \<and> \<not> truthy (challenge p) \<and> event p = Some e
                 \<and> e_type e = ''update_column_value'' \<and> e_columnId e = inputColumnId
                 \<and> String_of R (e_pulseId e) = Inl err)))
   \<and> (req_body req = Some payload \<and> \<not> truthy (challenge payload) \<and> event payload = None
        \<longrightarrow> handleWebhook R inputColumnId calculationService req s
              = (Some \<lparr>status = 200, body = SuccessBody\<rparr>, s))"
proof (intro conjI impI)
  show "(\<exists>b. fst (handleWebhook R inputColumnId calculationService req s)
            = Some \<lparr>status = 500, body = b\<rparr>)
      \<longleftrightarrow> (req_body req = None
           \<or> (\<exists>p e err. req_body req = Some p \<and> \<not> truthy (challenge p) \<and> event p = Some e
                 \<and> e_type e = ''update_column_value'' \<and> e_columnId e = inputColumnId
                 \<and> String_of R (e_pulseId e) = Inl err))"
  proof (cases "req_body req")
    case None
    then show ?thesis by (simp add: handleWebhook_def)
  next
    case (Some p)
    show ?thesis
    proof (cases "truthy (challenge p)")
      case True
      with Some show ?thesis by (simp add: handleWebhook_def handleWebhookChallenge_def)
    next
      case nc: False
      show ?thesis
      proof (cases "event p")
        case None
        with Some nc show ?thesis by (simp add: handleWebhook_def shouldProcessWebhook_def)
      next
        case (Some e)
        note ev = Some
        show ?thesis
        proof (cases "shouldProcessWebhook p inputColumnId")
          case False
          with \<open>req_body req = Some p\<close> nc ev show ?thesis
            by (auto simp: handleWebhook_def shouldProcessWebhook_def)
        next
          case True
          then have f: "e_type e = ''update_column_value''" "e_columnId e = inputColumnId"
            using ev by (simp_all add: shouldProcessWebhook_def)
          show ?thesis
          proof (cases "String_of R (e_pulseId e)")
            case (Inl err)
            from handleColumnChange_unprintable [OF ev Inl, of calculationService s]
            show ?thesis using \<open>req_body req = Some p\<close> nc ev True f Inl
              by (auto simp: handleWebhook_def)
          next
            case (Inr t)
            from handleColumnChange_printable [OF ev Inr, of calculationService s]
            show ?thesis using \<open>req_body req = Some p\<close> nc ev True Inr
              by (auto simp: handleWebhook_def split: prod.splits option.splits)
          qed
        qed
      qed
    qed
  qed
next
  assume "req_body req = Some payload \<and> \<not> truthy (challenge payload) \<and> event payload = None"
  then show "handleWebhook R inputColumnId calculationService req s
              = (Some \<lparr>status = 200, body = SuccessBody\<rparr>, s)"
    by (simp add: handleWebhook_def shouldProcessWebhook_def)
qed

theorem handleWebhook_server_error_only_when_handling_throws_witness:
  "handleWebhook example_runtime ''numbers'' example_service
      (webhook_request Undefined None) factor_3_for_123
     = (Some \<lparr>status = 200, body = SuccessBody\<rparr>, factor_3_for_123)
   \<and> (\<exists>b. fst (handleWebhook example_runtime ''numbers'' example_service
                  \<lparr>req_body = None\<rparr> factor_3_for_123)
            = Some \<lparr>status = 500, body = b\<rparr>)
   \<and> (\<exists>b. fst (handleWebhook example_runtime ''numbers'' example_service
                  (webhook_request Undefined (Some (unprintable_pulse_event (Number (Fin 10)))))
                  factor_3_for_123)
            = Some \<lparr>status = 500, body = b\<rparr>)"
proof -
  have 1: "handleWebhook example_runtime ''numbers'' example_service
             (webhook_request Undefined None) factor_3_for_123
           = (Some \<lparr>status = 200, body = SuccessBody\<rparr>, factor_3_for_123)"
    using handleWebhook_server_error_only_when_handling_throws
            [of example_runtime "''numbers''" example_service "webhook_request Undefined None"
                factor_3_for_123 "\<lparr>challenge = Undefined, event = None\<rparr>"]
    by (simp add: webhook_request_def)
  have 2: "\<exists>b. fst (handleWebhook example_runtime ''numbers'' example_service
                     \<lparr>req_body = None\<rparr> factor_3_for_123)
               = Some \<lparr>status = 500, body = b\<rparr>"
    using handleWebhook_server_error_only_when_handling_throws
            [of example_runtime "''numbers''" example_service "\<lparr>req_body = None\<rparr>"
                factor_3_for_123 "\<lparr>challenge = Undefined, event = None\<rparr>"]
    by simp
  let ?p = "\<lparr>challenge = Undefined,
             event = Some (unprintable_pulse_event (Number (Fin 10)))\<rparr>"
  have "req_body (webhook_request Undefined (Some (unprintable_pulse_event (Number (Fin 10)))))
          = Some ?p
        \<and> \<not> truthy (challenge ?p)
        \<and> event ?p = Some (unprintable_pulse_event (Number (Fin 10)))
        \<and> e_type (unprintable_pulse_event (Number (Fin 10))) = ''update_column_value''
        \<and> e_columnId (unprintable_pulse_event (Number (Fin 10))) = ''numbers''
        \<and> String_of example_runtime (e_pulseId (unprintable_pulse_event (Number (Fin 10))))
            = Inl (TypeError ''Cannot convert object to primitive value'')"
    by (simp add: webhook_request_def unprintable_pulse_event_def)
  then have 3: "\<exists>b. fst (handleWebhook example_runtime ''numbers'' example_service
                  (webhook_request Undefined (Some (unprintable_pulse_event (Number (Fin 10)))))
                  factor_3_for_123)
            = Some \<lparr>status = 500, body = b\<rparr>"
    using handleWebhook_server_error_only_when_handling_throws
            [of example_runtime "''numbers''" example_service
                "webhook_request Undefined (Some (unprintable_pulse_event (Number (Fin 10))))"
                factor_3_for_123 "\<lparr>challenge = Undefined, event = None\<rparr>"]
    by blast
  show ?thesis using 1 2 3 by simp
qed

text \<open>The body \<open>{}\<close> is acknowledged with 200.\<close>

theorem handleWebhook_empty_payload_acknowledged:
  "fst (handleWebhook example_runtime ''numbers'' example_service
          (webhook_request Undefined None) factor_3_for_123)
     = Some \<lparr>status = 200, body = SuccessBody\<rparr>"
  by (simp add: handleWebhook_def webhook_request_def shouldProcessWebhook_def)

lemma handleWebhook_accepted:
  assumes "req_body req = Some p" and "\<not> truthy (challenge p)" and "event p = Some e"
    and "e_type e = ''update_column_value''" and "e_columnId e = inputColumnId"
    and "String_of R (e_pulseId e) = Inr itemId"
    and "parseInputValue R (e_value e) = Inr (Some n)"
  shows "handleWebhook R inputColumnId calculationService req s
           = (Some \<lparr>status = 200, body = SuccessBody\<rparr>,
              snd (calculationService itemId webhook s))"
proof (cases "calculationService itemId webhook s")
  case (Pair r s')
  then show ?thesis
    using assms
    by (cases r)
       (simp_all add: handleWebhook_def shouldProcessWebhook_def handleColumnChange_def Let_def)
qed

lemma handleWebhook_not_parsed:
  assumes "req_body req = Some p" and "event p = Some e"
    and "\<forall>m. parseInputValue R (e_value e) \<noteq> Inr (Some m)"
  shows "snd (handleWebhook R inputColumnId calculationService req s) = s"
  using assms handleColumnChange_unparsed [OF assms(2,3), of calculationService s]
  by (auto simp: handleWebhook_def handleWebhookChallenge_def split: prod.splits option.splits)

lemma handleWebhook_status_200:
  assumes "req_body req = Some p" and "event p = Some e"
    and "truthy (challenge p) \<or> e_type e \<noteq> ''update_column_value''
         \<or> e_columnId e \<noteq> inputColumnId \<or> (\<exists>t. String_of R (e_pulseId e) = Inr t)"
  shows "(\<exists>b. fst (handleWebhook R inputColumnId calculationService req s)
              = Some \<lparr>status = 200, body = b\<rparr>)
       \<and> (\<not> truthy (challenge p) \<longrightarrow>
            fst (handleWebhook R inputColumnId calculationService req s)
              = Some \<lparr>status = 200, body = SuccessBody\<rparr>)"
proof (cases "truthy (challenge p)")
  case True
  with assms(1) show ?thesis by (simp add: handleWebhook_def handleWebhookChallenge_def)
next
  case nc: False
  show ?thesis
  proof (cases "shouldProcessWebhook p inputColumnId")
    case False
    with assms(1) nc show ?thesis by (simp add: handleWebhook_def)
  next
    case True
    with assms(2,3) nc obtain t where t: "String_of R (e_pulseId e) = Inr t"
      by (auto simp: shouldProcessWebhook_def)
    from handleColumnChange_printable [OF assms(2) t, of calculationService s]
    show ?thesis using assms(1) nc True
      by (auto simp: handleWebhook_def split: prod.splits option.splits)
  qed
qed

text \<open>
  Claim C6, as amended.  An event of another type, an event for another column, and an event
  of the input column whose \<open>value.value\<close> is truthy and has no string form that
  \<open>parseFloat\<close> reads as a number all leave the state as it was, whatever the calculation
  service is: the service is not called.  The sender gets status 200 (with \<open>success: true\<close>
  unless the body also carries a challenge to echo) in the first two cases, and in the third
  when the \<open>pulseId\<close> of the event can be converted to a string.  A falsy \<open>value.value\<close>
  (missing, \<open>null\<close>, 0, the empty string) is not among these events: it is read as 0.
\<close>

theorem handleWebhook_filtered_event_not_processed:
  assumes "req_body req = Some payload" and "event payload = Some e"
    and "e_type e \<noteq> ''update_column_value'' \<or> e_columnId e \<noteq> inputColumnId
         \<or> (\<exists>v. e_value e = Some v \<and> truthy (ev_value v)
                \<and> (\<forall>t. String_of R (ev_value v) = Inr t \<longrightarrow> isNaN (parseFloat R t)))"
  shows "snd (handleWebhook R inputColumnId calculationService req s) = s
       \<and> (truthy (challenge payload) \<or> e_type e \<noteq> ''update_column_value''
            \<or> e_columnId e \<noteq> inputColumnId \<or> (\<exists>t. String_of R (e_pulseId e) = Inr t)
          \<longrightarrow> (\<exists>b. fst (handleWebhook R inputColumnId calculationService req s)
                      = Some \<lparr>status = 200, body = b\<rparr>)
             \<and> (\<not> truthy (challenge payload) \<longrightarrow>
                  fst (handleWebhook R inputColumnId calculationService req s)
                    = Some \<lparr>status = 200, body = SuccessBody\<rparr>))"
proof (intro conjI impI)
  show "snd (handleWebhook R inputColumnId calculationService req s) = s"
  proof (cases "e_type e \<noteq> ''update_column_value'' \<or> e_columnId e \<noteq> inputColumnId")
    case True
    with assms(1,2) show ?thesis
      by (auto simp: handleWebhook_def handleWebhookChallenge_def shouldProcessWebhook_def)
  next
    case False
    with assms(3) obtain v where v: "e_value e = Some v" "truthy (ev_value v)"
      and n: "\<forall>t. String_of R (ev_value v) = Inr t \<longrightarrow> isNaN (parseFloat R t)"
      by blast
    have "\<forall>m. parseInputValue R (e_value e) \<noteq> Inr (Some m)"
      using n by (auto simp: parseInputValue_truthy [OF v] split: sum.splits)
    from handleWebhook_not_parsed [OF assms(1,2) this] show ?thesis .
  qed
next
  assume a: "truthy (challenge payload) \<or> e_type e \<noteq> ''update_column_value''
            \<or> e_columnId e \<noteq> inputColumnId \<or> (\<exists>t. String_of R (e_pulseId e) = Inr t)"
  from handleWebhook_status_200 [OF assms(1,2) a, of calculationService s]
  show "\<exists>b. fst (handleWebhook R inputColumnId calculationService req s)
              = Some \<lparr>status = 200, body = b\<rparr>" by blast
  assume "\<not> truthy (challenge payload)"
  with handleWebhook_status_200 [OF assms(1,2) a, of calculationService s]
  show "fst (handleWebhook R inputColumnId calculationService req s)
          = Some \<lparr>status = 200, body = SuccessBody\<rparr>" by blast
qed

theorem handleWebhook_filtered_event_not_processed_witness:
  "handleWebhook example_runtime ''numbers'' example_service
        (webhook_request Undefined
           (Some (column_event ''update_column_value'' ''numbers'' (String ''abc''))))
        factor_3_for_123
      = (Some \<lparr>status = 200, body = SuccessBody\<rparr>, factor_3_for_123)
   \<and> handleWebhook example_runtime ''numbers'' example_service
        (webhook_request Undefined
           (Some (column_event ''update_column_value'' ''text'' (Number (Fin 10)))))
        factor_3_for_123
      = (Some \<lparr>status = 200, body = SuccessBody\<rparr>, factor_3_for_123)
   \<and> handleWebhook example_runtime ''numbers'' example_service
        (webhook_request Undefined
           (Some (column_event ''create_pulse'' ''numbers'' (Number (Fin 10)))))
        factor_3_for_123
      = (Some \<lparr>status = 200, body = SuccessBody\<rparr>, factor_3_for_123)"
proof -
  let ?abc = "column_event ''update_column_value'' ''numbers'' (String ''abc'')"
  let ?col = "column_event ''update_column_value'' ''text'' (Number (Fin 10))"
  let ?oth = "column_event ''create_pulse'' ''numbers'' (Number (Fin 10))"
  have p: "isNaN (parseFloat example_runtime ''abc'')"
    by (simp add: example_runtime_def example_parseFloat_def digit_val_def decimal_digits_def
          isNaN_def)
  have 1: "handleWebhook example_runtime ''numbers'' example_service
             (webhook_request Undefined (Some ?abc)) factor_3_for_123
           = (Some \<lparr>status = 200, body = SuccessBody\<rparr>, factor_3_for_123)"
    using p handleWebhook_filtered_event_not_processed
            [of "webhook_request Undefined (Some ?abc)"
                "\<lparr>challenge = Undefined, event = Some ?abc\<rparr>" ?abc "''numbers''"
                example_runtime example_service factor_3_for_123]
    by (simp add: webhook_request_def prod_eq_iff column_event_def)
  have 2: "handleWebhook example_runtime ''numbers'' example_service
             (webhook_request Undefined (Some ?col)) factor_3_for_123
           = (Some \<lparr>status = 200, body = SuccessBody\<rparr>, factor_3_for_123)"
    using handleWebhook_filtered_event_not_processed
            [of "webhook_request Undefined (Some ?col)"
                "\<lparr>challenge = Undefined, event = Some ?col\<rparr>" ?col "''numbers''"
                example_runtime example_service factor_3_for_123]
    by (simp add: webhook_request_def prod_eq_iff column_event_def)
  have 3: "handleWebhook example_runtime ''numbers'' example_service
             (webhook_request Undefined (Some ?oth)) factor_3_for_123
           = (Some \<lparr>status = 200, body = SuccessBody\<rparr>, factor_3_for_123)"
    using handleWebhook_filtered_event_not_processed
            [of "webhook_request Undefined (Some ?oth)"
                "\<lparr>challenge = Undefined, event = Some ?oth\<rparr>" ?oth "''numbers''"
                example_runtime example_service factor_3_for_123]
    by (simp add: webhook_request_def prod_eq_iff column_event_def)
  show ?thesis using 1 2 3 by simp
qed

lemma example_empty_value_event:
  "handleWebhook example_runtime ''numbers'' example_service
     (webhook_request Undefined
        (Some (column_event ''update_column_value'' ''numbers'' (String []))))
     factor_3_for_123
   = (Some \<lparr>status = 200, body = SuccessBody\<rparr>,
      snd (example_service ''123'' webhook factor_3_for_123))"
proof -
  let ?e = "column_event ''update_column_value'' ''numbers'' (String [])"
  have pv: "parseInputValue example_runtime (e_value ?e) = Inr (Some (Fin 0))"
    using parseInputValue_falsy [of "e_value ?e" example_runtime] example_parse_0
    by (simp add: column_event_def isNaN_def)
  have id: "String_of example_runtime (e_pulseId ?e) = Inr ''123''"
    by (simp add: column_event_def example_runtime_def show_nat_123)
  show ?thesis
    using id pv
          handleWebhook_accepted
            [of "webhook_request Undefined (Some ?e)"
                "\<lparr>challenge = Undefined, event = Some ?e\<rparr>" ?e "''numbers''"
                example_runtime "''123''" "Fin 0" example_service factor_3_for_123]
    by (simp add: webhook_request_def column_event_def)
qed

text \<open>
  The empty string is not a number for \<open>parseFloat\<close>, and an event of the input column with
  that value does call the service: the history gains an entry.  An event of the input
  column with the value \<open>abc\<close> and the \<open>pulseId\<close> \<open>{"toString": 1}\<close> is answered 500.
\<close>

theorem handleWebhook_empty_value_invokes_service:
  "parseFloat example_runtime [] = NaN
   \<and> history (snd (handleWebhook example_runtime ''numbers'' example_service
        (webhook_request Undefined
           (Some (column_event ''update_column_value'' ''numbers'' (String []))))
        factor_3_for_123))
      = [calculation_entry example_runtime ''123'' (Fin 10) (Fin 3) (Fin 30) webhook]
   \<and> fst (handleWebhook example_runtime ''numbers'' example_service
        (webhook_request Undefined (Some (unprintable_pulse_event (String ''abc''))))
        factor_3_for_123)
      = Some \<lparr>status = 500, body = ErrorBody ''Internal server error''\<rparr>"
proof -
  have "fst (handleWebhook example_runtime ''numbers'' example_service
          (webhook_request Undefined (Some (unprintable_pulse_event (String ''abc''))))
          factor_3_for_123)
        = Some \<lparr>status = 500, body = ErrorBody ''Internal server error''\<rparr>"
    by (simp add: handleWebhook_def shouldProcessWebhook_def webhook_request_def
          handleColumnChange_unprintable
            [where err = "TypeError ''Cannot convert object to primitive value''"]
          unprintable_pulse_event_def)
  then show ?thesis
    by (simp add: example_empty_value_event example_service_123)
       (simp add: example_runtime_def example_parseFloat_def)
qed

text \<open>
  Claim C7, as amended.  A body whose \<open>challenge\<close> is truthy (for a string: not empty) is
  answered with status 200 and that very value, before the event is looked at, and the
  state is unchanged.
\<close>

theorem handleWebhook_truthy_challenge_echoed:
  "req_body req = Some payload \<Longrightarrow> truthy (challenge payload) \<Longrightarrow>
   handleWebhook R inputColumnId calculationService req s
     = (Some \<lparr>status = 200, body = ChallengeBody (challenge payload)\<rparr>, s)"
  by (simp add: handleWebhook_def handleWebhookChallenge_def)

theorem handleWebhook_truthy_challenge_echoed_witness:
  "handleWebhook example_runtime ''numbers'' example_service
     (webhook_request (String ''abc'')
        (Some (column_event ''update_column_value'' ''numbers'' (Number (Fin 10)))))
     factor_3_for_123
   = (Some \<lparr>status = 200, body = ChallengeBody (String ''abc'')\<rparr>, factor_3_for_123)"
  using handleWebhook_truthy_challenge_echoed
          [of "webhook_request (String ''abc'')
                 (Some (column_event ''update_column_value'' ''numbers'' (Number (Fin 10))))"
              "\<lparr>challenge = String ''abc'',
                event = Some (column_event ''update_column_value'' ''numbers'' (Number (Fin 10)))\<rparr>"
              example_runtime "''numbers''" example_service factor_3_for_123]
  by (simp add: webhook_request_def)

text \<open>A body whose \<open>challenge\<close> is the empty string is not answered with the challenge.\<close>

theorem handleWebhook_empty_challenge_not_echoed:
  "fst (handleWebhook example_runtime ''numbers'' example_service
          (webhook_request (String []) None) factor_3_for_123)
     = Some \<lparr>status = 200, body = SuccessBody\<rparr>
   \<and> fst (handleWebhook example_runtime ''numbers'' example_service
          (webhook_request (String []) None) factor_3_for_123)
     \<noteq> Some \<lparr>status = 200, body = ChallengeBody (String [])\<rparr>"
  by (simp add: handleWebhook_def webhook_request_def shouldProcessWebhook_def)

text \<open>
  Claim C10, as amended.  For an event whose \<open>value\<close> is missing, or whose \<open>value.value\<close> is
  missing, \<open>null\<close>, 0 or the empty string, the parser reads the string \<open>0\<close> instead; on a
  runtime whose \<open>parseFloat\<close> reads that string as 0 it yields 0.  An event that passes the
  filter and whose \<open>pulseId\<close> can be converted to a string (every number can) then calls the
  calculation service once, for that item, and is acknowledged.  When the \<open>pulseId\<close> cannot
  be converted, the handler answers 500 and the service is not called.
\<close>

theorem handleWebhook_falsy_value_recalculates:
  assumes "val = None
           \<or> (\<exists>v. val = Some v \<and> ev_value v \<in> {Undefined, Null, Number (Fin 0), String []})"
  shows "parseInputValue R val
           = Inr (if isNaN (parseFloat R ''0'') then None else Some (parseFloat R ''0''))
       \<and> (parseFloat R ''0'' = Fin 0 \<longrightarrow> parseInputValue R val = Inr (Some (Fin 0)))
       \<and> (parseFloat R ''0'' = Fin 0 \<and> req_body req = Some payload
            \<and> \<not> truthy (challenge payload) \<and> event payload = Some e
            \<and> e_type e = ''update_column_value'' \<and> e_columnId e = inputColumnId
            \<and> e_value e = val \<and> String_of R (e_pulseId e) = Inr itemId
          \<longrightarrow> handleWebhook R inputColumnId calculationService req s
                = (Some \<lparr>status = 200, body = SuccessBody\<rparr>,
                   snd (calculationService itemId webhook s)))
       \<and> (req_body req = Some payload
            \<and> \<not> truthy (challenge payload) \<and> event payload = Some e
            \<and> e_type e = ''update_column_value'' \<and> e_columnId e = inputColumnId
            \<and> String_of R (e_pulseId e) = Inl err
          \<longrightarrow> handleWebhook R inputColumnId calculationService req s
                = (Some \<lparr>status = 500, body = ErrorBody ''Internal server error''\<rparr>, s))"
proof -
  have f: "val = None \<or> (\<exists>v. val = Some v \<and> \<not> truthy (ev_value v))"
    using assms by (auto simp: truthy_number_def)
  have p: "parseInputValue R val
           = Inr (if isNaN (parseFloat R ''0'') then None else Some (parseFloat R ''0''))"
    by (rule parseInputValue_falsy [OF f])
  have z: "parseFloat R ''0'' = Fin 0 \<longrightarrow> parseInputValue R val = Inr (Some (Fin 0))"
    using p by (simp add: isNaN_def)
  have a: "parseFloat R ''0'' = Fin 0 \<and> req_body req = Some payload
            \<and> \<not> truthy (challenge payload) \<and> event payload = Some e
            \<and> e_type e = ''update_column_value'' \<and> e_columnId e = inputColumnId
            \<and> e_value e = val \<and> String_of R (e_pulseId e) = Inr itemId
          \<longrightarrow> handleWebhook R inputColumnId calculationService req s
                = (Some \<lparr>status = 200, body = SuccessBody\<rparr>,
                   snd (calculationService itemId webhook s))"
    using z handleWebhook_accepted [of req payload e inputColumnId R itemId "Fin 0"
             calculationService s]
    by blast
  have b: "req_body req = Some payload
            \<and> \<not> truthy (challenge payload) \<and> event payload = Some e
            \<and> e_type e = ''update_column_value'' \<and> e_columnId e = inputColumnId
            \<and> String_of R (e_pulseId e) = Inl err
          \<longrightarrow> handleWebhook R inputColumnId calculationService req s
                = (Some \<lparr>status = 500, body = ErrorBody ''Internal server error''\<rparr>, s)"
    using handleColumnChange_unprintable [of payload e R err calculationService s]
    by (auto simp: handleWebhook_def shouldProcessWebhook_def)
  show ?thesis using p z a b by blast
qed

theorem handleWebhook_falsy_value_recalculates_witness:
  "parseFloat example_runtime ''0'' = Fin 0
   \<and> parseInputValue example_runtime (Some \<lparr>ev_value = String [], ev_unit = None\<rparr>)
       = Inr (Some (Fin 0))
   \<and> parseInputValue example_runtime None = Inr (Some (Fin 0))
   \<and> fst (handleWebhook example_runtime ''numbers'' example_service
        (webhook_request Undefined
           (Some (column_event ''update_column_value'' ''numbers'' (String []))))
        factor_3_for_123)
      = Some \<lparr>status = 200, body = SuccessBody\<rparr>
   \<and> history (snd (handleWebhook example_runtime ''numbers'' example_service
        (webhook_request Undefined
           (Some (column_event ''update_column_value'' ''numbers'' (String []))))
        factor_3_for_123))
      = [calculation_entry example_runtime ''123'' (Fin 10) (Fin 3) (Fin 30) webhook]
   \<and> fst (handleWebhook example_runtime ''numbers'' example_service
        (webhook_request Undefined (Some (unprintable_pulse_event (String []))))
        factor_3_for_123)
      = Some \<lparr>status = 500, body = ErrorBody ''Internal server error''\<rparr>"
proof -
  let ?e = "column_event ''update_column_value'' ''numbers'' (String [])"
  let ?u = "unprintable_pulse_event (String [])"
  let ?v = "Some \<lparr>ev_value = String [], ev_unit = None\<rparr>"
  let ?err = "TypeError ''Cannot convert object to primitive value''"
  note z = example_parse_0
  have id: "String_of example_runtime (e_pulseId ?e) = Inr ''123''"
    by (simp add: column_event_def example_runtime_def show_nat_123)
  have iu: "String_of example_runtime (e_pulseId ?u) = Inl ?err"
    by (simp add: unprintable_pulse_event_def)
  note t1 = handleWebhook_falsy_value_recalculates
              [of ?v example_runtime "webhook_request Undefined (Some ?e)"
                  "\<lparr>challenge = Undefined, event = Some ?e\<rparr>" ?e "''numbers''" "''123''"
                  example_service factor_3_for_123 ?err]
  note t2 = handleWebhook_falsy_value_recalculates
              [of None example_runtime "webhook_request Undefined (Some ?e)"
                  "\<lparr>challenge = Undefined, event = Some ?e\<rparr>" ?e "''numbers''" "''123''"
                  example_service factor_3_for_123 ?err]
  note t3 = handleWebhook_falsy_value_recalculates
              [of ?v example_runtime "webhook_request Undefined (Some ?u)"
                  "\<lparr>challenge = Undefined, event = Some ?u\<rparr>" ?u "''numbers''" "''123''"
                  example_service factor_3_for_123 ?err]
  have a: "parseInputValue example_runtime ?v = Inr (Some (Fin 0))"
    using z t1 by (simp add: isNaN_def)
  have b: "parseInputValue example_runtime None = Inr (Some (Fin 0))"
    using z t2 by (simp add: isNaN_def)
  have c: "handleWebhook example_runtime ''numbers'' example_service
             (webhook_request Undefined (Some ?e)) factor_3_for_123
           = (Some \<lparr>status = 200, body = SuccessBody\<rparr>,
              snd (example_service ''123'' webhook factor_3_for_123))"
    using z id t1 by (simp add: webhook_request_def column_event_def isNaN_def)
  have d: "handleWebhook example_runtime ''numbers'' example_service
             (webhook_request Undefined (Some ?u)) factor_3_for_123
           = (Some \<lparr>status = 500, body = ErrorBody ''Internal server error''\<rparr>,
              factor_3_for_123)"
    using iu t3 by (simp add: webhook_request_def unprintable_pulse_event_def isNaN_def)
  show ?thesis using z a b c d by (simp add: example_service_123)
qed

text \<open>
  An event of the input column with an empty value and the \<open>pulseId\<close> \<open>{"toString": 1}\<close> is
  answered 500, and the history gains no entry: no recalculation takes place.
\<close>

theorem handleWebhook_unprintable_pulseId_no_recalculation:
  "fst (handleWebhook example_runtime ''numbers'' example_service
          (webhook_request Undefined (Some (unprintable_pulse_event (String []))))
          factor_3_for_123)
     = Some \<lparr>status = 500, body = ErrorBody ''Internal server error''\<rparr>
   \<and> history (snd (handleWebhook example_runtime ''numbers'' example_service
          (webhook_request Undefined (Some (unprintable_pulse_event (String []))))
          factor_3_for_123)) = history factor_3_for_123"
  by (simp add: handleWebhook_def shouldProcessWebhook_def webhook_request_def
        handleColumnChange_unprintable [where err = "TypeError ''Cannot convert object to primitive value''"]
        unprintable_pulse_event_def)

end
